theory Spec2Isabelle
  imports Complex_Main
begin

section \<open>The training step of script/tri\_loss/train.py\<close>

text \<open>
  The step of \<^verbatim>\<open>main\<close> (lines 227 to 386) drives collaborators that are not part of
  the file: the embedding networks, \<^verbatim>\<open>global_loss\<close>, \<^verbatim>\<open>local_loss\<close>, the torch
  functions and the optimizers. The model keeps the control flow of the step as written and
  takes the collaborators as the fields of a record. Floats are read as reals. Every call
  of a collaborator is logged as an event, so that "this computation is not executed" and
  "this happens before that" are statements about the log.
\<close>

subsection \<open>Values\<close>

type_synonym vec = "real list"
type_synonym mat = "real list list"

text \<open>
  An autograd Variable: its data, and the models whose parameters its computation graph
  reaches (the leaves that \<^verbatim>\<open>backward\<close> accumulates gradients into).
\<close>

datatype 'a var = Var (data: 'a) (leaves: "nat set")

text \<open>
  A Python name of the step that holds either a plain number (\<^verbatim>\<open>l_loss = 0\<close>,
  \<^verbatim>\<open>id_loss = 0\<close>, \<^verbatim>\<open>pm_loss = 0\<close>, ...) or a Variable.
\<close>

datatype 'a py = PyNum real | PyVar "'a var"

datatype error = AttributeError | IndexError | NameError | TypeError | ZeroDivisionError
  | StopIteration

datatype meter = g_prec_meter | g_m_meter | g_dist_ap_meter | g_dist_an_meter | g_loss_meter
  | l_prec_meter | l_m_meter | l_dist_ap_meter | l_dist_an_meter | l_loss_meter
  | id_loss_meter | gdm_loss_meter | ldm_loss_meter | pm_loss_meter | loss_meter

text \<open>
  The calls the step makes, with the index of the model they are made for. \<open>LocalLoss i own\<close>
  is a call of \<^verbatim>\<open>local_loss\<close>, \<open>own\<close> telling whether it is the call with
  \<^verbatim>\<open>p_inds = n_inds = None\<close>. \<open>KlDiv i j\<close>, \<open>GdmSum i j\<close> and \<open>LdmSum i j\<close> are the
  summands of the three mutual losses of model \<open>i\<close> against peer \<open>j\<close>. \<open>Backward i v ls\<close>
  is \<^verbatim>\<open>loss.backward()\<close> in iteration \<open>i\<close>, on a loss of value \<open>v\<close> whose graph has the
  leaves \<open>ls\<close>.
\<close>

datatype event =
    Forward nat
  | GlobalLoss nat
  | LocalLoss nat bool
  | IdCriterion nat
  | Softmax nat
  | LogSoftmax nat
  | KlDiv nat nat
  | GdmSum nat nat
  | LdmSum nat nat
  | ZeroGrad nat
  | Backward nat real "nat set"
  | OptStep nat
  | MeterUpdate meter real
  | Eval nat nat nat

subsection \<open>Configuration and collaborators\<close>

text \<open>
  The fields of \<^verbatim>\<open>cfg\<close> that \<^verbatim>\<open>main\<close> reads in the step, plus \<^verbatim>\<open>only_test\<close> and
  \<^verbatim>\<open>total_epochs\<close>. The class \<^verbatim>\<open>Config\<close> lives in \<^verbatim>\<open>train_cfg\<close>; \<^verbatim>\<open>main\<close> is modelled
  on the value \<^verbatim>\<open>Config()\<close> returns.
\<close>

record config =
  num_models :: nat
  normalize_feature :: bool
  global_margin :: real
  local_margin :: real
  g_loss_weight :: real
  l_loss_weight :: real
  id_loss_weight :: real
  pm_loss_weight :: real
  gdm_loss_weight :: real
  ldm_loss_weight :: real
  local_dist_own_hard_sample :: bool
  only_test :: bool
  total_epochs :: nat

text \<open>
  The collaborators. \<open>num_devices\<close> is the length of \<^verbatim>\<open>TVTs\<close>, the list that
  \<^verbatim>\<open>set_devices_for_ml(cfg.sys_device_ids)\<close> returns; \<open>start_ep\<close> is \<^verbatim>\<open>resume_ep if
  cfg.resume else 0\<close>. \<^verbatim>\<open>local_loss\<close> is one Python function with two call shapes: with
  \<^verbatim>\<open>p_inds = n_inds = None\<close> it returns four values (\<open>local_loss_own\<close>), with the indices
  of the global miner it returns three (\<open>local_loss_shared\<close>).
\<close>

record ('im, 'gf, 'lf) collab =
  num_devices :: nat
  start_ep :: nat
  model :: "nat \<Rightarrow> 'im list \<Rightarrow> 'gf \<times> 'lf \<times> mat"
  global_loss :: "real \<Rightarrow> 'gf \<Rightarrow> nat list \<Rightarrow> bool
                   \<Rightarrow> real \<times> nat list \<times> nat list \<times> vec \<times> vec \<times> mat"
  local_loss_own :: "real \<Rightarrow> 'lf \<Rightarrow> nat list \<Rightarrow> bool \<Rightarrow> real \<times> vec \<times> vec \<times> mat"
  local_loss_shared :: "real \<Rightarrow> 'lf \<Rightarrow> nat list \<Rightarrow> nat list \<Rightarrow> nat list \<Rightarrow> bool
                          \<Rightarrow> real \<times> vec \<times> vec"
  id_criterion :: "mat \<Rightarrow> nat list \<Rightarrow> real"
  softmax :: "mat \<Rightarrow> mat"
  log_softmax :: "mat \<Rightarrow> mat"
  kl_div :: "mat \<Rightarrow> mat \<Rightarrow> real"

subsection \<open>Logged, fallible computations\<close>

text \<open>
  A computation returns the events it logged and either the exception that ended it or its
  value. An exception keeps the events logged before it.
\<close>

type_synonym 'a logged = "event list \<times> (error + 'a)"

definition ret :: "'a \<Rightarrow> 'a logged" where
  "ret x = ([], Inr x)"

definition raise :: "error \<Rightarrow> 'a logged" where
  "raise e = ([], Inl e)"

definition call :: "event \<Rightarrow> 'a \<Rightarrow> 'a logged" where
  "call ev x = ([ev], Inr x)"

definition thenL :: "'a logged \<Rightarrow> ('a \<Rightarrow> 'b logged) \<Rightarrow> 'b logged" where
  "thenL m f = (case snd m of
                  Inl e \<Rightarrow> (fst m, Inl e)
                | Inr x \<Rightarrow> (fst m @ fst (f x), snd (f x)))"

text \<open>A \<^verbatim>\<open>for\<close> loop that appends one result per iteration.\<close>

primrec forL :: "nat list \<Rightarrow> (nat \<Rightarrow> 'a logged) \<Rightarrow> 'a list logged" where
  "forL [] f = ret []"
| "forL (i # is) f = thenL (f i) (\<lambda>x. thenL (forL is f) (\<lambda>xs. ret (x # xs)))"

subsection \<open>Python and torch arithmetic on the values of the step\<close>

definition var_mul :: "real var \<Rightarrow> real \<Rightarrow> real var" where
  "var_mul v w = Var (data v * w) (leaves v)"

fun py_mul :: "real py \<Rightarrow> real \<Rightarrow> real py" where
  "py_mul (PyNum a) w = PyNum (a * w)"
| "py_mul (PyVar v) w = PyVar (var_mul v w)"

fun var_add_py :: "real var \<Rightarrow> real py \<Rightarrow> real var" where
  "var_add_py v (PyNum a) = Var (data v + a) (leaves v)"
| "var_add_py v (PyVar u) = Var (data v + data u) (leaves v \<union> leaves u)"

text \<open>\<^verbatim>\<open>acc += v\<close> with \<open>v\<close> a Variable: the result is a Variable whatever \<open>acc\<close> was.\<close>

fun py_add_var :: "real py \<Rightarrow> real var \<Rightarrow> real var" where
  "py_add_var (PyNum a) v = Var (a + data v) (leaves v)"
| "py_add_var (PyVar u) v = Var (data u + data v) (leaves u \<union> leaves v)"

text \<open>
  \<^verbatim>\<open>acc /= d\<close> with \<open>d\<close> a Python float: on a Python number, division by zero raises; on a
  Variable it is element-wise.
\<close>

fun py_div :: "real py \<Rightarrow> real \<Rightarrow> real py logged" where
  "py_div (PyNum a) d = (if d = 0 then raise ZeroDivisionError else ret (PyNum (a / d)))"
| "py_div (PyVar v) d = ret (PyVar (Var (data v / d) (leaves v)))"

definition mat_sub :: "mat \<Rightarrow> mat \<Rightarrow> mat" where
  "mat_sub a b = map2 (map2 (\<lambda>x y. x - y)) a b"

definition mat_pow :: "mat \<Rightarrow> nat \<Rightarrow> mat" where
  "mat_pow a k = map (map (\<lambda>x. x ^ k)) a"

definition mat_sum :: "mat \<Rightarrow> real" where
  "mat_sum a = sum_list (map sum_list a)"

definition var_sub :: "mat var \<Rightarrow> mat var \<Rightarrow> mat var" where
  "var_sub a b = Var (mat_sub (data a) (data b)) (leaves a \<union> leaves b)"

text \<open>\<^verbatim>\<open>x - v\<close> with \<open>v\<close> a Variable; a Python number on the left is broadcast.\<close>

fun py_sub_var :: "mat py \<Rightarrow> mat var \<Rightarrow> mat var" where
  "py_sub_var (PyNum a) v = Var (map (map (\<lambda>y. a - y)) (data v)) (leaves v)"
| "py_sub_var (PyVar u) v = var_sub u v"

definition torch_pow :: "mat var \<Rightarrow> nat \<Rightarrow> mat var" where
  "torch_pow v k = Var (mat_pow (data v) k) (leaves v)"

definition torch_sum :: "mat var \<Rightarrow> real var" where
  "torch_sum v = Var (mat_sum (data v)) (leaves v)"

text \<open>\<^verbatim>\<open>.detach()\<close>: the same data, cut off from the graph that computed it.\<close>

definition detach :: "'a var \<Rightarrow> 'a var" where
  "detach v = Var (data v) {}"

text \<open>
  Modelled from the spec: the device-transfer callables \<^verbatim>\<open>TVTs\<close> come from
  \<^verbatim>\<open>set_devices_for_ml\<close> in \<^verbatim>\<open>aligned_reid.utils.utils\<close>, which is not part of the file.
  The spec has them transfer a tensor to a model's compute context: the copy keeps the data
  and stays in the graph. A Python number is no tensor and has neither the transfer methods
  nor \<^verbatim>\<open>.detach()\<close>, so \<^verbatim>\<open>TVT(0).detach()\<close> raises.
\<close>

definition TVT :: "'a var \<Rightarrow> 'a var" where
  "TVT v = v"

fun TVT_py :: "'a py \<Rightarrow> 'a var logged" where
  "TVT_py (PyNum a) = raise AttributeError"
| "TVT_py (PyVar v) = ret (TVT v)"

text \<open>
  Modelled from the spec: \<^verbatim>\<open>to_scalar\<close> of \<^verbatim>\<open>aligned_reid.utils.utils\<close> is not part of the
  file. It reads the scalar value out of a Variable for the metrics sink; anything that is
  not a Variable or tensor is refused.
\<close>

fun to_scalar :: "real py \<Rightarrow> real logged" where
  "to_scalar (PyNum a) = raise TypeError"
| "to_scalar (PyVar v) = ret (data v)"

definition mean :: "vec \<Rightarrow> real" where
  "mean xs = sum_list xs / real (length xs)"

text \<open>\<^verbatim>\<open>(a > b).data.float()\<close>, element by element.\<close>

definition gt_float :: "vec \<Rightarrow> vec \<Rightarrow> vec" where
  "gt_float a b = map2 (\<lambda>x y. if x > y then 1 else 0) a b"

definition vec_add_num :: "vec \<Rightarrow> real \<Rightarrow> vec" where
  "vec_add_num a m = map (\<lambda>x. x + m) a"

subsection \<open>First loop (lines 251 to 284): forward pass and per-model losses\<close>

text \<open>
  What one iteration of the first loop appends to the seven lists, and the names it leaves
  bound. \<open>l_dist_ap\<close> and \<open>l_dist_an\<close> are unbound (\<open>None\<close>) when the branch of line 260 is
  taken.
\<close>

record fwd =
  g_loss :: "real var"
  p_inds :: "nat list"
  n_inds :: "nat list"
  g_dist_ap :: "vec var"
  g_dist_an :: "vec var"
  g_dist_mat :: "mat var"
  l_loss :: "real py"
  l_dist_ap :: "vec var option"
  l_dist_an :: "vec var option"
  l_dist_mat :: "mat py"
  id_loss :: "real py"
  probs :: "mat var"
  log_probs :: "mat var"

text \<open>
  The outputs of model \<open>i\<close> are Variables whose graph reaches the parameters of model \<open>i\<close>
  only; everything computed from them alone has the same leaves.
\<close>

definition first_loop_body ::
  "config \<Rightarrow> ('im, 'gf, 'lf) collab \<Rightarrow> 'im list \<Rightarrow> nat list \<Rightarrow> nat \<Rightarrow> fwd logged" where
  "first_loop_body cfg env ims labels i =
     thenL (call (Forward i) (model env i ims)) (\<lambda>(global_feat, local_feat, logits).
     thenL (call (GlobalLoss i)
              (global_loss env (global_margin cfg) global_feat labels (normalize_feature cfg)))
       (\<lambda>(gl, pi, ni, gap, gan, gmat).
     thenL (if l_loss_weight cfg = 0 then ret (PyNum 0, None, None, PyNum 0)
            else if local_dist_own_hard_sample cfg then
              thenL (call (LocalLoss i True)
                       (local_loss_own env (local_margin cfg) local_feat labels
                          (normalize_feature cfg)))
                (\<lambda>(ll, lap, lan, lmat).
                   ret (PyVar (Var ll {i}), Some (Var lap {i}), Some (Var lan {i}),
                        PyVar (Var lmat {i})))
            else
              thenL (call (LocalLoss i False)
                       (local_loss_shared env (local_margin cfg) local_feat pi ni labels
                          (normalize_feature cfg)))
                (\<lambda>(ll, lap, lan).
                   ret (PyVar (Var ll {i}), Some (Var lap {i}), Some (Var lan {i}), PyNum 0)))
       (\<lambda>(ll, lap, lan, lmat).
     thenL (if id_loss_weight cfg > 0
            then call (IdCriterion i) (PyVar (Var (id_criterion env logits labels) {i}))
            else ret (PyNum 0))
       (\<lambda>idl.
     thenL (call (Softmax i) (Var (softmax env logits) {i})) (\<lambda>pr.
     thenL (call (LogSoftmax i) (Var (log_softmax env logits) {i})) (\<lambda>lpr.
     ret \<lparr>g_loss = Var gl {i}, p_inds = pi, n_inds = ni,
          g_dist_ap = Var gap {i}, g_dist_an = Var gan {i}, g_dist_mat = Var gmat {i},
          l_loss = ll, l_dist_ap = lap, l_dist_an = lan, l_dist_mat = lmat,
          id_loss = idl, probs = pr, log_probs = lpr\<rparr>))))))"

subsection \<open>Second loop (lines 291 to 336): mutual losses, total loss, backward\<close>

text \<open>
  \<^verbatim>\<open>for j in range(cfg.num_models): if j != i: acc += term(j)\<close>, the loop shared by the
  three mutual losses.
\<close>

fun mutual_loop :: "nat \<Rightarrow> (nat \<Rightarrow> real var logged) \<Rightarrow> nat list \<Rightarrow> real py \<Rightarrow> real py logged" where
  "mutual_loop i term [] acc = ret acc"
| "mutual_loop i term (j # js) acc =
     (if j \<noteq> i
      then thenL (term j) (\<lambda>v. mutual_loop i term js (PyVar (py_add_var acc v)))
      else mutual_loop i term js acc)"

text \<open>\<^verbatim>\<open>xs[j]\<close> on a Python list.\<close>

definition index :: "'a list \<Rightarrow> nat \<Rightarrow> 'a logged" where
  "index xs j = (if j < length xs then ret (xs ! j) else raise IndexError)"

text \<open>Line 305: \<^verbatim>\<open>F.kl_div(log_probs, TVT(probs_list[j]).detach(), False)\<close>.\<close>

definition pm_term :: "('im, 'gf, 'lf) collab \<Rightarrow> fwd list \<Rightarrow> nat \<Rightarrow> nat \<Rightarrow> real var logged" where
  "pm_term env fs i j =
     thenL (index fs j) (\<lambda>fj.
     call (KlDiv i j)
       (Var (kl_div env (data (log_probs (fs ! i))) (data (detach (TVT (probs fj)))))
            (leaves (log_probs (fs ! i)) \<union> leaves (detach (TVT (probs fj))))))"

text \<open>
  Lines 313 and 314:
  \<^verbatim>\<open>torch.sum(torch.pow(g_dist_mat - TVT(g_dist_mat_list[j]).detach(), 2))\<close>.
\<close>

definition gdm_term :: "fwd list \<Rightarrow> nat \<Rightarrow> nat \<Rightarrow> real var logged" where
  "gdm_term fs i j =
     thenL (index fs j) (\<lambda>fj.
     call (GdmSum i j)
       (torch_sum (torch_pow (var_sub (g_dist_mat (fs ! i)) (detach (TVT (g_dist_mat fj)))) 2)))"

text \<open>
  Lines 324 and 325:
  \<^verbatim>\<open>torch.sum(torch.pow(l_dist_mat - TVT(l_dist_mat_list[j]).detach(), 2))\<close>.
\<close>

definition ldm_term :: "fwd list \<Rightarrow> nat \<Rightarrow> nat \<Rightarrow> real var logged" where
  "ldm_term fs i j =
     thenL (index fs j) (\<lambda>fj.
     thenL (TVT_py (l_dist_mat fj)) (\<lambda>t.
     call (LdmSum i j)
       (torch_sum (torch_pow (py_sub_var (l_dist_mat (fs ! i)) (detach t)) 2))))"

record snd_pass =
  pm_loss :: "real py"
  gdm_loss :: "real py"
  ldm_loss :: "real py"
  loss :: "real var"

text \<open>
  Lines 328 to 333. Python adds from the left.
\<close>

definition total_loss :: "config \<Rightarrow> fwd \<Rightarrow> real py \<Rightarrow> real py \<Rightarrow> real py \<Rightarrow> real var" where
  "total_loss cfg f pm gdm ldm =
     var_add_py (var_add_py (var_add_py (var_add_py (var_add_py
       (var_mul (g_loss f) (g_loss_weight cfg))
       (py_mul (l_loss f) (l_loss_weight cfg)))
       (py_mul (id_loss f) (id_loss_weight cfg)))
       (py_mul pm (pm_loss_weight cfg)))
       (py_mul gdm (gdm_loss_weight cfg)))
       (py_mul ldm (ldm_loss_weight cfg))"

text \<open>Lines 300 to 306. \<open>n\<close> is \<^verbatim>\<open>len(ims)\<close>.\<close>

definition pm_block ::
  "config \<Rightarrow> ('im, 'gf, 'lf) collab \<Rightarrow> nat \<Rightarrow> fwd list \<Rightarrow> nat \<Rightarrow> real py logged" where
  "pm_block cfg env n fs i =
     (if num_models cfg > 1 \<and> pm_loss_weight cfg > 0
      then thenL (mutual_loop i (pm_term env fs i) [0..<num_models cfg] (PyNum 0))
             (\<lambda>s. py_div s (1 * real (num_models cfg - 1) * real n))
      else ret (PyNum 0))"

text \<open>Lines 308 to 315.\<close>

definition gdm_block :: "config \<Rightarrow> nat \<Rightarrow> fwd list \<Rightarrow> nat \<Rightarrow> real py logged" where
  "gdm_block cfg n fs i =
     (if num_models cfg > 1 \<and> gdm_loss_weight cfg > 0
      then thenL (mutual_loop i (gdm_term fs i) [0..<num_models cfg] (PyNum 0))
             (\<lambda>s. py_div s (1 * real (num_models cfg - 1) * real n * real n))
      else ret (PyNum 0))"

text \<open>Lines 317 to 326.\<close>

definition ldm_block :: "config \<Rightarrow> nat \<Rightarrow> fwd list \<Rightarrow> nat \<Rightarrow> real py logged" where
  "ldm_block cfg n fs i =
     (if num_models cfg > 1 \<and> local_dist_own_hard_sample cfg \<and> ldm_loss_weight cfg > 0
      then thenL (mutual_loop i (ldm_term fs i) [0..<num_models cfg] (PyNum 0))
             (\<lambda>s. py_div s (1 * real (num_models cfg - 1) * real n * real n))
      else ret (PyNum 0))"

text \<open>
  One iteration of the second loop. The lists \<^verbatim>\<open>g_loss_list\<close>, ..., \<^verbatim>\<open>l_dist_mat_list\<close>
  are the fields of \<open>fs\<close>, and the loop's own \<^verbatim>\<open>g_loss\<close>, ..., \<^verbatim>\<open>l_dist_mat\<close> are those
  of \<open>fs ! i\<close>.
\<close>

definition second_loop_body ::
  "config \<Rightarrow> ('im, 'gf, 'lf) collab \<Rightarrow> nat \<Rightarrow> fwd list \<Rightarrow> nat \<Rightarrow> snd_pass logged" where
  "second_loop_body cfg env n fs i =
     thenL (pm_block cfg env n fs i) (\<lambda>pm.
     thenL (gdm_block cfg n fs i) (\<lambda>gdm.
     thenL (ldm_block cfg n fs i) (\<lambda>ldm.
     thenL (ret (total_loss cfg (fs ! i) pm gdm ldm)) (\<lambda>l.
     thenL (call (ZeroGrad i) ()) (\<lambda>_.
     thenL (call (Backward i (data l) (leaves l)) ()) (\<lambda>_.
     ret \<lparr>pm_loss = pm, gdm_loss = gdm, ldm_loss = ldm, loss = l\<rparr>))))))"

subsection \<open>Step log (lines 346 to 386)\<close>

text \<open>Reading a name that no iteration has bound.\<close>

definition bound :: "'a option \<Rightarrow> 'a logged" where
  "bound x = (case x of None \<Rightarrow> raise NameError | Some v \<Rightarrow> ret v)"

definition update :: "meter \<Rightarrow> real \<Rightarrow> unit logged" where
  "update m v = call (MeterUpdate m v) ()"

text \<open>
  Lines 346 to 356, for the global distance. \<open>f\<close> holds the names as the first loop left
  them. The values are computed first and the meters updated after; no call lies between.
\<close>

definition log_global :: "config \<Rightarrow> fwd \<Rightarrow> unit logged" where
  "log_global cfg f =
     thenL (update g_prec_meter (mean (gt_float (data (g_dist_an f)) (data (g_dist_ap f))))) (\<lambda>_.
     thenL (update g_m_meter (mean (gt_float (data (g_dist_an f))
                                (vec_add_num (data (g_dist_ap f)) (global_margin cfg))))) (\<lambda>_.
     thenL (update g_dist_ap_meter (mean (data (g_dist_ap f)))) (\<lambda>_.
     thenL (update g_dist_an_meter (mean (data (g_dist_an f)))) (\<lambda>_.
     thenL (to_scalar (PyVar (g_loss f))) (\<lambda>v. update g_loss_meter v)))))"

text \<open>Lines 358 to 370, for the local distance.\<close>

definition log_local :: "config \<Rightarrow> fwd \<Rightarrow> unit logged" where
  "log_local cfg f =
     (if l_loss_weight cfg > 0
      then thenL (bound (l_dist_an f)) (\<lambda>lan.
           thenL (bound (l_dist_ap f)) (\<lambda>lap.
           thenL (update l_prec_meter (mean (gt_float (data lan) (data lap)))) (\<lambda>_.
           thenL (update l_m_meter (mean (gt_float (data lan)
                                      (vec_add_num (data lap) (local_margin cfg))))) (\<lambda>_.
           thenL (update l_dist_ap_meter (mean (data lap))) (\<lambda>_.
           thenL (update l_dist_an_meter (mean (data lan))) (\<lambda>_.
           thenL (to_scalar (l_loss f)) (\<lambda>v. update l_loss_meter v)))))))
      else ret ())"

text \<open>\<^verbatim>\<open>if c: m.update(to_scalar(x))\<close>, the shape of lines 372 to 384.\<close>

definition log_term :: "bool \<Rightarrow> meter \<Rightarrow> real py \<Rightarrow> unit logged" where
  "log_term c m x = (if c then thenL (to_scalar x) (\<lambda>v. update m v) else ret ())"

text \<open>
  Lines 346 to 386. \<open>f\<close> and \<open>s\<close> hold the names as the loops left them.
\<close>

definition step_log :: "config \<Rightarrow> fwd \<Rightarrow> snd_pass \<Rightarrow> unit logged" where
  "step_log cfg f s =
     thenL (log_global cfg f) (\<lambda>_.
     thenL (log_local cfg f) (\<lambda>_.
     thenL (log_term (id_loss_weight cfg > 0) id_loss_meter (id_loss f)) (\<lambda>_.
     thenL (log_term (num_models cfg > 1 \<and> pm_loss_weight cfg > 0)
              pm_loss_meter (pm_loss s)) (\<lambda>_.
     thenL (log_term (num_models cfg > 1 \<and> gdm_loss_weight cfg > 0)
              gdm_loss_meter (gdm_loss s)) (\<lambda>_.
     thenL (log_term (num_models cfg > 1 \<and> local_dist_own_hard_sample cfg
                      \<and> ldm_loss_weight cfg > 0)
              ldm_loss_meter (ldm_loss s)) (\<lambda>_.
     thenL (to_scalar (PyVar (loss s))) (\<lambda>v. update loss_meter v)))))))"

subsection \<open>The step\<close>

text \<open>
  Both loops run over \<^verbatim>\<open>zip\<close>s that stop at the shortest list: the first over \<^verbatim>\<open>models\<close>
  (\<^verbatim>\<open>cfg.num_models\<close> long) and three lists as long as \<^verbatim>\<open>TVTs\<close>, the second over the
  lists the first one built, \<^verbatim>\<open>optimizers\<close> and \<^verbatim>\<open>TVTs\<close>. The third loop runs over all
  \<^verbatim>\<open>optimizers\<close>. The log reads the names of the last iterations; with no iteration they
  are unbound.
\<close>

definition first_loop ::
  "config \<Rightarrow> ('im, 'gf, 'lf) collab \<Rightarrow> 'im list \<Rightarrow> nat list \<Rightarrow> fwd list logged" where
  "first_loop cfg env ims labels =
     forL [0..<min (num_models cfg) (num_devices env)] (first_loop_body cfg env ims labels)"

definition second_loop ::
  "config \<Rightarrow> ('im, 'gf, 'lf) collab \<Rightarrow> nat \<Rightarrow> fwd list \<Rightarrow> snd_pass list logged" where
  "second_loop cfg env n fs =
     forL [0..<min (length fs) (min (num_models cfg) (num_devices env))]
       (second_loop_body cfg env n fs)"

definition train_step ::
  "config \<Rightarrow> ('im, 'gf, 'lf) collab \<Rightarrow> 'im list \<Rightarrow> nat list \<Rightarrow> unit logged" where
  "train_step cfg env ims labels =
     thenL (first_loop cfg env ims labels) (\<lambda>fs.
     thenL (second_loop cfg env (length ims) fs) (\<lambda>ss.
     thenL (forL [0..<num_models cfg] (\<lambda>k. call (OptStep k) ())) (\<lambda>_.
     if fs = [] \<or> ss = [] then raise NameError
     else step_log cfg (last fs) (last ss))))"

subsection \<open>The epochs and \<^verbatim>\<open>main\<close>\<close>

text \<open>
  \<^verbatim>\<open>test\<close> (lines 145 to 168): three evaluations per model, with global weight and local
  weight 1/0, 0/1 and 1/1; \<^verbatim>\<open>TVTs[i]\<close> is read first.
\<close>

definition test :: "config \<Rightarrow> ('im, 'gf, 'lf) collab \<Rightarrow> unit logged" where
  "test cfg env =
     thenL (forL [0..<num_models cfg] (\<lambda>i.
       thenL (if i < num_devices env then ret () else raise IndexError) (\<lambda>_.
       thenL (call (Eval i 1 0) ()) (\<lambda>_.
       thenL (call (Eval i 0 1) ()) (\<lambda>_.
       call (Eval i 1 1) ()))))) (\<lambda>_. ret ())"

text \<open>
  The \<^verbatim>\<open>while not epoch_done\<close> loop (lines 227 to 440). The data source is given as the
  list of the answers \<^verbatim>\<open>(ims, labels, epoch_done)\<close> of the successive calls of
  \<^verbatim>\<open>train_set.next_batch()\<close>; the loop returns the answers it has not consumed. The
  list bounds the run: when it is used up before an answer says \<^verbatim>\<open>epoch_done\<close>, the
  model stops with \<open>StopIteration\<close>.
\<close>

fun epoch_loop ::
  "config \<Rightarrow> ('im, 'gf, 'lf) collab \<Rightarrow> ('im list \<times> nat list \<times> bool) list
     \<Rightarrow> ('im list \<times> nat list \<times> bool) list logged" where
  "epoch_loop cfg env [] = raise StopIteration"
| "epoch_loop cfg env ((ims, labels, epoch_done) # ds) =
     thenL (train_step cfg env ims labels) (\<lambda>_.
     if epoch_done then ret ds else epoch_loop cfg env ds)"

text \<open>\<^verbatim>\<open>for ep in range(start_ep, cfg.total_epochs)\<close>, by the number of epochs left.\<close>

fun epochs_loop ::
  "config \<Rightarrow> ('im, 'gf, 'lf) collab \<Rightarrow> nat \<Rightarrow> ('im list \<times> nat list \<times> bool) list
     \<Rightarrow> ('im list \<times> nat list \<times> bool) list logged" where
  "epochs_loop cfg env 0 ds = ret ds"
| "epochs_loop cfg env (Suc k) ds =
     thenL (epoch_loop cfg env ds) (\<lambda>ds'. epochs_loop cfg env k ds')"

text \<open>
  \<^verbatim>\<open>main\<close> on the configuration \<^verbatim>\<open>Config()\<close> returned. Between line 76 and the first
  training step it builds the models, criteria, optimizers and datasets from other fields
  of \<^verbatim>\<open>cfg\<close>; none of these lines reads a loss weight or compares
  \<^verbatim>\<open>cfg.num_models\<close> with anything. Printing, the learning-rate schedule, checkpoints
  and TensorBoard are left out.
\<close>

definition main ::
  "config \<Rightarrow> ('im, 'gf, 'lf) collab \<Rightarrow> ('im list \<times> nat list \<times> bool) list \<Rightarrow> unit logged" where
  "main cfg env ds =
     (if only_test cfg then test cfg env
      else thenL (epochs_loop cfg env (total_epochs cfg - start_ep env) ds) (\<lambda>_.
           test cfg env))"

subsection \<open>What the optimizer calls do to the models\<close>

text \<open>
  The parameters of each model, and for each model the gradient accumulated in its
  parameters, kept as the list of the backward passes that added to it: the iteration and
  the value of the loss. \<^verbatim>\<open>zero_grad\<close> of optimizer \<open>i\<close> clears the gradient of model
  \<open>i\<close>; \<^verbatim>\<open>backward\<close> adds to the gradient of every leaf of the loss's graph;
  \<^verbatim>\<open>step\<close> of optimizer \<open>i\<close> updates the parameters of model \<open>i\<close> from its gradient,
  by the optimizer's rule \<open>upd\<close>.
\<close>

record 'p tstate =
  params :: "nat \<Rightarrow> 'p"
  grads :: "nat \<Rightarrow> (nat \<times> real) list"

fun apply_event ::
  "(nat \<Rightarrow> 'p \<Rightarrow> (nat \<times> real) list \<Rightarrow> 'p) \<Rightarrow> event \<Rightarrow> 'p tstate \<Rightarrow> 'p tstate" where
  "apply_event upd (ZeroGrad i) st = st\<lparr>grads := (grads st)(i := [])\<rparr>"
| "apply_event upd (Backward i v ls) st =
     st\<lparr>grads := (\<lambda>j. if j \<in> ls then grads st j @ [(i, v)] else grads st j)\<rparr>"
| "apply_event upd (OptStep i) st =
     st\<lparr>params := (params st)(i := upd i (params st i) (grads st i))\<rparr>"
| "apply_event upd e st = st"

definition run_events ::
  "(nat \<Rightarrow> 'p \<Rightarrow> (nat \<times> real) list \<Rightarrow> 'p) \<Rightarrow> event list \<Rightarrow> 'p tstate \<Rightarrow> 'p tstate" where
  "run_events upd es st = fold (apply_event upd) es st"

section \<open>Vocabulary for the statements\<close>

text \<open>
  The definitions of this section are not part of the program. They name what the
  statements below talk about; each is tied to the program by a lemma.
\<close>

text \<open>The record iteration \<open>i\<close> of the first loop leaves (the loop body never raises).\<close>

definition fwd_of ::
  "config \<Rightarrow> ('im, 'gf, 'lf) collab \<Rightarrow> 'im list \<Rightarrow> nat list \<Rightarrow> nat \<Rightarrow> fwd" where
  "fwd_of cfg env ims labels i = projr (snd (first_loop_body cfg env ims labels i))"

text \<open>The lists the first loop builds.\<close>

definition fwds ::
  "config \<Rightarrow> ('im, 'gf, 'lf) collab \<Rightarrow> 'im list \<Rightarrow> nat list \<Rightarrow> fwd list" where
  "fwds cfg env ims labels =
     map (fwd_of cfg env ims labels) [0..<min (num_models cfg) (num_devices env)]"

text \<open>The calls iteration \<open>i\<close> of the first loop makes.\<close>

definition first_events :: "config \<Rightarrow> nat \<Rightarrow> event list" where
  "first_events cfg i =
     [Forward i, GlobalLoss i]
     @ (if l_loss_weight cfg = 0 then [] else [LocalLoss i (local_dist_own_hard_sample cfg)])
     @ (if id_loss_weight cfg > 0 then [IdCriterion i] else [])
     @ [Softmax i, LogSoftmax i]"

text \<open>The value and the graph leaves of a name that holds a number or a Variable.\<close>

fun py_data :: "real py \<Rightarrow> real" where
  "py_data (PyNum a) = a"
| "py_data (PyVar v) = data v"

fun py_leaves :: "'a py \<Rightarrow> nat set" where
  "py_leaves (PyNum a) = {}"
| "py_leaves (PyVar v) = leaves v"

text \<open>The peers of model \<open>i\<close> among \<open>m\<close> models, in the order the loops visit them.\<close>

definition peers :: "nat \<Rightarrow> nat \<Rightarrow> nat list" where
  "peers m i = filter (\<lambda>j. j \<noteq> i) [0..<m]"

fun is_opt_step :: "event \<Rightarrow> bool" where
  "is_opt_step (OptStep k) = True"
| "is_opt_step e = False"

fun is_meter_update :: "event \<Rightarrow> bool" where
  "is_meter_update (MeterUpdate m v) = True"
| "is_meter_update e = False"

definition only_meters :: "'a logged \<Rightarrow> bool" where
  "only_meters m = (\<forall>e \<in> set (fst m). is_meter_update e)"

text \<open>The end of the step, after the optimizer loop.\<close>

definition step_tail :: "config \<Rightarrow> fwd list \<Rightarrow> snd_pass list \<Rightarrow> unit logged" where
  "step_tail cfg fs ss =
     (if fs = [] \<or> ss = [] then raise NameError else step_log cfg (last fs) (last ss))"

text \<open>An \<open>n\<close> by \<open>n\<close> matrix.\<close>

definition is_square :: "nat \<Rightarrow> mat \<Rightarrow> bool" where
  "is_square n a = (length a = n \<and> (\<forall>r \<in> set a. length r = n))"

subsection \<open>Concrete inputs\<close>

text \<open>
  Two models on two devices. The collaborators return small values that differ from model
  to model; the batch has two images.
\<close>

definition env2 :: "(nat, nat, nat) collab" where
  "env2 = \<lparr>num_devices = 2, start_ep = 0,
     model = (\<lambda>i ims. (i, i, [[real i, 1]])),
     global_loss = (\<lambda>m gf ls nf. (1 + real gf, [1, 0], [1, 0], [1, 1], [2 + real gf, 2],
                       [[0, 1 + real gf], [1 + real gf, 0]])),
     local_loss_own = (\<lambda>m lf ls nf. (2 + real lf, [1, 1], [3, 3 + real lf],
                          [[0, 2 + real lf], [2 + real lf, 0]])),
     local_loss_shared = (\<lambda>m lf pi ni ls nf. (2 + real lf, [1, 1], [3, 3 + real lf])),
     id_criterion = (\<lambda>logits ls. 5),
     softmax = (\<lambda>x. x), log_softmax = (\<lambda>x. x),
     kl_div = (\<lambda>a b. mat_sum b + 1)\<rparr>"

text \<open>A batch of two images with one label.\<close>

definition ims2 :: "nat list" where
  "ims2 = [0, 1]"

definition labels2 :: "nat list" where
  "labels2 = [7, 7]"

text \<open>Two models, only the probability mutual loss enabled.\<close>

definition cfg_pm :: config where
  "cfg_pm = \<lparr>num_models = 2, normalize_feature = True, global_margin = 1, local_margin = 1,
     g_loss_weight = 0, l_loss_weight = 0, id_loss_weight = 0, pm_loss_weight = 1,
     gdm_loss_weight = 0, ldm_loss_weight = 0, local_dist_own_hard_sample = False,
     only_test = False, total_epochs = 1\<rparr>"

text \<open>Two models, only the global triplet loss enabled.\<close>

definition cfg_g :: config where
  "cfg_g = \<lparr>num_models = 2, normalize_feature = True, global_margin = 1, local_margin = 1,
     g_loss_weight = 1, l_loss_weight = 0, id_loss_weight = 0, pm_loss_weight = 0,
     gdm_loss_weight = 0, ldm_loss_weight = 0, local_dist_own_hard_sample = False,
     only_test = False, total_epochs = 1\<rparr>"

text \<open>A state of the models: parameters, and empty gradients; an optimizer rule.\<close>

definition st0 :: "nat tstate" where
  "st0 = \<lparr>params = (\<lambda>i. 0), grads = (\<lambda>i. [])\<rparr>"

definition upd0 :: "nat \<Rightarrow> nat \<Rightarrow> (nat \<times> real) list \<Rightarrow> nat" where
  "upd0 i p g = p + length g"

text \<open>Two models, all six terms enabled, independent hard samples for the local loss.\<close>

definition cfg_all :: config where
  "cfg_all = \<lparr>num_models = 2, normalize_feature = True, global_margin = 1, local_margin = 1,
     g_loss_weight = 1, l_loss_weight = 1, id_loss_weight = 1, pm_loss_weight = 1,
     gdm_loss_weight = 1, ldm_loss_weight = 1, local_dist_own_hard_sample = True,
     only_test = False, total_epochs = 1\<rparr>"

text \<open>Two models, the local loss and the local-distance mutual loss disabled.\<close>

definition cfg_no_local :: config where
  "cfg_no_local = \<lparr>num_models = 2, normalize_feature = True, global_margin = 1,
     local_margin = 1,
     g_loss_weight = 1, l_loss_weight = 0, id_loss_weight = 1, pm_loss_weight = 1,
     gdm_loss_weight = 1, ldm_loss_weight = 0, local_dist_own_hard_sample = True,
     only_test = False, total_epochs = 1\<rparr>"

text \<open>
  Two models, local-loss weight 0, independent hard samples, local-distance mutual loss
  enabled.
\<close>

definition cfg_ldm0 :: config where
  "cfg_ldm0 = \<lparr>num_models = 2, normalize_feature = True, global_margin = 1, local_margin = 1,
     g_loss_weight = 1, l_loss_weight = 0, id_loss_weight = 0, pm_loss_weight = 0,
     gdm_loss_weight = 0, ldm_loss_weight = 1, local_dist_own_hard_sample = True,
     only_test = False, total_epochs = 1\<rparr>"

text \<open>
  One model, all three mutual weights enabled, shared hard samples for the local loss.
\<close>

definition cfg_one :: config where
  "cfg_one = \<lparr>num_models = 1, normalize_feature = True, global_margin = 1, local_margin = 1,
     g_loss_weight = 1, l_loss_weight = 1, id_loss_weight = 1, pm_loss_weight = 1,
     gdm_loss_weight = 1, ldm_loss_weight = 1, local_dist_own_hard_sample = False,
     only_test = False, total_epochs = 1\<rparr>"

text \<open>Two models, every weight 1, the local loss on the hard samples of the global loss.\<close>

definition cfg_shared :: config where
  "cfg_shared = \<lparr>num_models = 2, normalize_feature = True, global_margin = 1, local_margin = 1,
     g_loss_weight = 1, l_loss_weight = 1, id_loss_weight = 1, pm_loss_weight = 1,
     gdm_loss_weight = 1, ldm_loss_weight = 1, local_dist_own_hard_sample = False,
     only_test = False, total_epochs = 1\<rparr>"

text \<open>The meter updates of the step log, as a list: what the log of a step that returns
  holds after the optimizer steps, from the first-loop record \<open>f\<close> and the second-loop record
  \<open>s\<close> it reads.\<close>

definition global_events :: "config \<Rightarrow> fwd \<Rightarrow> event list" where
  "global_events cfg f =
     [MeterUpdate g_prec_meter (mean (gt_float (data (g_dist_an f)) (data (g_dist_ap f)))),
      MeterUpdate g_m_meter (mean (gt_float (data (g_dist_an f))
                               (vec_add_num (data (g_dist_ap f)) (global_margin cfg)))),
      MeterUpdate g_dist_ap_meter (mean (data (g_dist_ap f))),
      MeterUpdate g_dist_an_meter (mean (data (g_dist_an f))),
      MeterUpdate g_loss_meter (data (g_loss f))]"

definition local_events :: "config \<Rightarrow> fwd \<Rightarrow> event list" where
  "local_events cfg f =
     (if 0 < l_loss_weight cfg
      then [MeterUpdate l_prec_meter
              (mean (gt_float (data (the (l_dist_an f))) (data (the (l_dist_ap f))))),
            MeterUpdate l_m_meter
              (mean (gt_float (data (the (l_dist_an f)))
                      (vec_add_num (data (the (l_dist_ap f))) (local_margin cfg)))),
            MeterUpdate l_dist_ap_meter (mean (data (the (l_dist_ap f)))),
            MeterUpdate l_dist_an_meter (mean (data (the (l_dist_an f)))),
            MeterUpdate l_loss_meter (py_data (l_loss f))]
      else [])"

definition term_events :: "bool \<Rightarrow> meter \<Rightarrow> real py \<Rightarrow> event list" where
  "term_events c m x = (if c then [MeterUpdate m (py_data x)] else [])"

definition step_log_events :: "config \<Rightarrow> fwd \<Rightarrow> snd_pass \<Rightarrow> event list" where
  "step_log_events cfg f s =
     global_events cfg f @ local_events cfg f
     @ term_events (0 < id_loss_weight cfg) id_loss_meter (id_loss f)
     @ term_events (1 < num_models cfg \<and> 0 < pm_loss_weight cfg) pm_loss_meter (pm_loss s)
     @ term_events (1 < num_models cfg \<and> 0 < gdm_loss_weight cfg) gdm_loss_meter (gdm_loss s)
     @ term_events (1 < num_models cfg \<and> local_dist_own_hard_sample cfg
                    \<and> 0 < ldm_loss_weight cfg) ldm_loss_meter (ldm_loss s)
     @ [MeterUpdate loss_meter (data (loss s))]"

section \<open>Lemmas\<close>

lemma thenL_ret [simp]: "thenL (ret x) f = f x"
  by (simp add: thenL_def ret_def)

lemma thenL_raise [simp]: "thenL (raise e) f = raise e"
  by (simp add: thenL_def raise_def)

lemma thenL_call [simp]: "thenL (call ev x) f = (ev # fst (f x), snd (f x))"
  by (simp add: thenL_def call_def)

lemma thenL_Inr: "snd m = Inr x \<Longrightarrow> thenL m f = (fst m @ fst (f x), snd (f x))"
  by (simp add: thenL_def)

lemma thenL_Inl: "snd m = Inl e \<Longrightarrow> thenL m f = (fst m, Inl e)"
  by (simp add: thenL_def)

lemma thenL_pair_Inr [simp]: "thenL (es, Inr x) f = (es @ fst (f x), snd (f x))"
  by (simp add: thenL_def)

lemma thenL_pair_Inl [simp]: "thenL (es, Inl e) f = (es, Inl e)"
  by (simp add: thenL_def)

lemma fst_ret [simp]: "fst (ret x) = []" and snd_ret [simp]: "snd (ret x) = Inr x"
  by (simp_all add: ret_def)

lemma fst_raise [simp]: "fst (raise e) = []" and snd_raise [simp]: "snd (raise e) = Inl e"
  by (simp_all add: raise_def)

lemma fst_call [simp]: "fst (call ev x) = [ev]" and snd_call [simp]: "snd (call ev x) = Inr x"
  by (simp_all add: call_def)

lemma snd_thenL_Inr:
  "snd (thenL m f) = Inr y \<Longrightarrow> \<exists>x. snd m = Inr x \<and> snd (f x) = Inr y"
  by (auto simp: thenL_def split: sum.splits)

lemma set_fst_thenL:
  "e \<in> set (fst (thenL m f)) \<Longrightarrow> e \<in> set (fst m) \<or> (\<exists>x. snd m = Inr x \<and> e \<in> set (fst (f x)))"
  by (auto simp: thenL_def split: sum.splits)

lemma forL_ok:
  "(\<And>i. i \<in> set is \<Longrightarrow> snd (f i) = Inr (g i)) \<Longrightarrow>
   forL is f = (concat (map (\<lambda>i. fst (f i)) is), Inr (map g is))"
  by (induction "is") (simp_all add: thenL_Inr ret_def)

lemma forL_Inr:
  "snd (forL is f) = Inr xs \<Longrightarrow>
   length xs = length is \<and> (\<forall>k < length is. snd (f (is ! k)) = Inr (xs ! k)) \<and>
   fst (forL is f) = concat (map (\<lambda>i. fst (f i)) is)"
proof (induction "is" arbitrary: xs)
  case Nil
  then show ?case by (simp add: ret_def)
next
  case (Cons i "is")
  from Cons.prems obtain x where x: "snd (f i) = Inr x"
    and r: "snd (thenL (forL is f) (\<lambda>xs. ret (x # xs))) = Inr xs"
    by (auto dest: snd_thenL_Inr)
  from r obtain ys where ys: "snd (forL is f) = Inr ys" and xs: "xs = x # ys"
    by (auto dest!: snd_thenL_Inr)
  from Cons.IH [OF ys] x ys xs show ?case
    by (auto simp: thenL_Inr nth_Cons split: nat.splits)
qed

lemma set_fst_forL:
  "e \<in> set (fst (forL is f)) \<Longrightarrow> \<exists>i \<in> set is. e \<in> set (fst (f i))"
  by (induction "is") (auto dest!: set_fst_thenL)

lemma fst_forL_prefix:
  "snd (forL is f) = Inl e \<Longrightarrow>
   \<exists>k < length is. snd (f (is ! k)) = Inl e \<and>
     fst (forL is f) = concat (map (\<lambda>i. fst (f i)) (take (Suc k) is)) \<and>
     (\<forall>k' < k. \<exists>x. snd (f (is ! k')) = Inr x)"
proof (induction "is")
  case Nil
  then show ?case by simp
next
  case (Cons i "is")
  show ?case
  proof (cases "snd (f i)")
    case (Inl e')
    with Cons.prems have "e' = e" by (simp add: thenL_Inl)
    with Inl show ?thesis by (intro exI [of _ 0]) (simp add: thenL_Inl)
  next
    case (Inr x)
    with Cons.prems have r: "snd (forL is f) = Inl e"
      by (auto simp: thenL_Inr thenL_def split: sum.splits)
    from Cons.IH [OF r] obtain k where k: "k < length is" "snd (f (is ! k)) = Inl e"
      "fst (forL is f) = concat (map (\<lambda>i. fst (f i)) (take (Suc k) is))"
      "\<forall>k' < k. \<exists>x. snd (f (is ! k')) = Inr x" by blast
    show ?thesis
      using k Inr r
      by (intro exI [of _ "Suc k"]) (auto simp: thenL_Inr thenL_Inl nth_Cons split: nat.splits)
  qed
qed

lemma first_loop_body_eq:
  "first_loop_body cfg env ims labels i = (first_events cfg i, Inr (fwd_of cfg env ims labels i))"
  by (simp add: fwd_of_def first_loop_body_def first_events_def case_prod_beta ret_def call_def)

lemma fwd_of_fields:
  "probs (fwd_of cfg env ims labels i) = Var (softmax env (snd (snd (model env i ims)))) {i}"
  "log_probs (fwd_of cfg env ims labels i) = Var (log_softmax env (snd (snd (model env i ims)))) {i}"
  "leaves (g_loss (fwd_of cfg env ims labels i)) = {i}"
  "leaves (g_dist_mat (fwd_of cfg env ims labels i)) = {i}"
  "l_loss_weight cfg = 0 \<Longrightarrow> l_loss (fwd_of cfg env ims labels i) = PyNum 0"
  "l_loss_weight cfg = 0 \<Longrightarrow> l_dist_mat (fwd_of cfg env ims labels i) = PyNum 0"
  by (simp_all add: fwd_of_def first_loop_body_def case_prod_beta ret_def call_def)

lemma py_add_var_eq: "py_add_var acc v = Var (py_data acc + data v) (py_leaves acc \<union> leaves v)"
  by (cases acc) simp_all

lemma mutual_loop_ok:
  assumes "\<And>j. j \<in> set js \<Longrightarrow> j \<noteq> i \<Longrightarrow> term j = ([ev j], Inr (Var (d j) L))"
  shows "mutual_loop i term js acc =
           (map ev (filter (\<lambda>j. j \<noteq> i) js),
            Inr (if filter (\<lambda>j. j \<noteq> i) js = [] then acc
                 else PyVar (Var (py_data acc + sum_list (map d (filter (\<lambda>j. j \<noteq> i) js)))
                                 (py_leaves acc \<union> L))))"
  using assms
proof (induction js arbitrary: acc)
  case Nil
  then show ?case by (simp add: ret_def)
next
  case (Cons j js)
  show ?case
  proof (cases "j = i")
    case True
    with Cons show ?thesis by simp
  next
    case False
    have t: "term j = ([ev j], Inr (Var (d j) L))" using Cons.prems False by simp
    have "mutual_loop i term js (PyVar (py_add_var acc (Var (d j) L))) =
           (map ev (filter (\<lambda>j. j \<noteq> i) js),
            Inr (if filter (\<lambda>j. j \<noteq> i) js = [] then PyVar (py_add_var acc (Var (d j) L))
                 else PyVar (Var (py_data (PyVar (py_add_var acc (Var (d j) L))) + sum_list (map d (filter (\<lambda>j. j \<noteq> i) js)))
                                 (py_leaves (PyVar (py_add_var acc (Var (d j) L))) \<union> L))))"
      by (rule Cons.IH) (use Cons.prems in simp)
    with False t show ?thesis
      by (simp add: py_add_var_eq add.assoc Un_assoc)
  qed
qed

lemma set_fst_mutual_loop:
  "e \<in> set (fst (mutual_loop i term js acc)) \<Longrightarrow> \<exists>j \<in> set js. j \<noteq> i \<and> e \<in> set (fst (term j))"
  by (induction js arbitrary: acc) (auto dest!: set_fst_thenL split: if_splits)

lemma mutual_loop_leaves:
  "snd (mutual_loop i term js acc) = Inr r \<Longrightarrow>
   \<forall>j \<in> set js. \<forall>v. snd (term j) = Inr v \<longrightarrow> leaves v \<subseteq> L \<Longrightarrow>
   py_leaves acc \<subseteq> L \<Longrightarrow> py_leaves r \<subseteq> L"
proof (induction js arbitrary: acc)
  case Nil
  then show ?case by simp
next
  case (Cons j js)
  show ?case
  proof (cases "j = i")
    case True
    show ?thesis
      by (rule Cons.IH [of acc]) (use Cons.prems True in auto)
  next
    case False
    with Cons.prems(1) obtain v where v: "snd (term j) = Inr v"
      and r: "snd (mutual_loop i term js (PyVar (py_add_var acc v))) = Inr r"
      by (auto dest: snd_thenL_Inr)
    have "leaves v \<subseteq> L" using Cons.prems(2) v by simp
    with Cons.prems(3) have "py_leaves (PyVar (py_add_var acc v)) \<subseteq> L"
      by (simp add: py_add_var_eq)
    then show ?thesis
      by (intro Cons.IH [OF r]) (use Cons.prems(2) in auto)
  qed
qed

lemma mutual_loop_fail:
  assumes "\<And>j. j \<in> set js \<Longrightarrow> j \<noteq> i \<Longrightarrow> term j = ([], Inl e)"
    and "\<exists>j \<in> set js. j \<noteq> i"
  shows "mutual_loop i term js acc = ([], Inl e)"
  using assms
  by (induction js arbitrary: acc) (auto simp: thenL_Inl)

lemma peers_nonempty: "2 \<le> m \<Longrightarrow> peers m i \<noteq> []"
proof -
  assume m: "2 \<le> m"
  have "(if i = 0 then 1 else 0) \<in> set (peers m i)"
    using m by (auto simp: peers_def)
  then show ?thesis by auto
qed

lemma index_ok [simp]: "j < length xs \<Longrightarrow> index xs j = ret (xs ! j)"
  by (simp add: index_def)

lemma pm_term_ok:
  "j < length fs \<Longrightarrow>
   pm_term env fs i j =
     ([KlDiv i j],
      Inr (Var (kl_div env (data (log_probs (fs ! i))) (data (probs (fs ! j))))
               (leaves (log_probs (fs ! i)))))"
  by (simp add: pm_term_def detach_def TVT_def call_def)

lemma gdm_term_ok:
  "j < length fs \<Longrightarrow>
   gdm_term fs i j =
     ([GdmSum i j],
      Inr (Var (mat_sum (mat_pow (mat_sub (data (g_dist_mat (fs ! i))) (data (g_dist_mat (fs ! j)))) 2))
               (leaves (g_dist_mat (fs ! i)))))"
  by (simp add: gdm_term_def detach_def TVT_def call_def torch_sum_def torch_pow_def var_sub_def)

lemma pm_block_ok:
  assumes "2 \<le> num_models cfg" "0 < pm_loss_weight cfg" "num_models cfg \<le> length fs"
  shows "pm_block cfg env n fs i =
           (map (KlDiv i) (peers (num_models cfg) i),
            Inr (PyVar (Var
              (sum_list (map (\<lambda>j. kl_div env (data (log_probs (fs ! i))) (data (probs (fs ! j))))
                           (peers (num_models cfg) i))
                 / (real (num_models cfg - 1) * real n))
              (leaves (log_probs (fs ! i))))))"
proof -
  have "mutual_loop i (pm_term env fs i) [0..<num_models cfg] (PyNum 0) =
          (map (KlDiv i) (peers (num_models cfg) i),
           Inr (PyVar (Var (0 + sum_list (map (\<lambda>j. kl_div env (data (log_probs (fs ! i)))
                  (data (probs (fs ! j)))) (peers (num_models cfg) i)))
                 ({} \<union> leaves (log_probs (fs ! i))))))"
    using assms peers_nonempty [of "num_models cfg" i]
    by (subst mutual_loop_ok [where ev = "KlDiv i" and L = "leaves (log_probs (fs ! i))"
          and d = "\<lambda>j. kl_div env (data (log_probs (fs ! i))) (data (probs (fs ! j)))"])
       (simp_all add: pm_term_ok peers_def)
  with assms show ?thesis
    by (simp add: pm_block_def ret_def)
qed

lemma gdm_block_ok:
  assumes "2 \<le> num_models cfg" "0 < gdm_loss_weight cfg" "num_models cfg \<le> length fs"
  shows "gdm_block cfg n fs i =
           (map (GdmSum i) (peers (num_models cfg) i),
            Inr (PyVar (Var
              (sum_list (map (\<lambda>j. mat_sum (mat_pow (mat_sub (data (g_dist_mat (fs ! i)))
                                     (data (g_dist_mat (fs ! j)))) 2))
                           (peers (num_models cfg) i))
                 / (real (num_models cfg - 1) * real n * real n))
              (leaves (g_dist_mat (fs ! i))))))"
proof -
  have "mutual_loop i (gdm_term fs i) [0..<num_models cfg] (PyNum 0) =
          (map (GdmSum i) (peers (num_models cfg) i),
           Inr (PyVar (Var (0 + sum_list (map (\<lambda>j. mat_sum (mat_pow (mat_sub (data (g_dist_mat (fs ! i)))
                                     (data (g_dist_mat (fs ! j)))) 2)) (peers (num_models cfg) i)))
                 ({} \<union> leaves (g_dist_mat (fs ! i))))))"
    using assms peers_nonempty [of "num_models cfg" i]
    by (subst mutual_loop_ok [where ev = "GdmSum i" and L = "leaves (g_dist_mat (fs ! i))"
          and d = "\<lambda>j. mat_sum (mat_pow (mat_sub (data (g_dist_mat (fs ! i)))
                                     (data (g_dist_mat (fs ! j)))) 2)"])
       (simp_all add: gdm_term_ok peers_def)
  with assms show ?thesis
    by (simp add: gdm_block_def ret_def)
qed

lemma first_loop_eq:
  "first_loop cfg env ims labels =
     (concat (map (first_events cfg) [0..<min (num_models cfg) (num_devices env)]),
      Inr (fwds cfg env ims labels))"
  unfolding first_loop_def fwds_def
  by (subst forL_ok [where g = "fwd_of cfg env ims labels"]) (simp_all add: first_loop_body_eq)

lemma length_fwds [simp]:
  "length (fwds cfg env ims labels) = min (num_models cfg) (num_devices env)"
  by (simp add: fwds_def)

lemma nth_fwds [simp]:
  "i < num_models cfg \<Longrightarrow> i < num_devices env \<Longrightarrow>
   fwds cfg env ims labels ! i = fwd_of cfg env ims labels i"
  by (simp add: fwds_def)

lemma opt_loop_eq:
  "forL [0..<m] (\<lambda>k. call (OptStep k) ()) = (map OptStep [0..<m], Inr (replicate m ()))"
  by (subst forL_ok [where g = "\<lambda>k. ()"]) (simp_all add: map_replicate_const)

lemma fst_py_div [simp]: "fst (py_div s d) = []"
  by (cases s) simp_all

lemma py_div_Inr: "snd (py_div s d) = Inr r \<Longrightarrow> py_leaves r = py_leaves s"
  by (cases s) (auto split: if_splits)

lemma set_fst_pm_term: "e \<in> set (fst (pm_term env fs i j)) \<Longrightarrow> e = KlDiv i j"
  by (auto simp: pm_term_def index_def dest!: set_fst_thenL split: if_splits)

lemma set_fst_gdm_term: "e \<in> set (fst (gdm_term fs i j)) \<Longrightarrow> e = GdmSum i j"
  by (auto simp: gdm_term_def index_def dest!: set_fst_thenL split: if_splits)

lemma fst_TVT_py [simp]: "fst (TVT_py x) = []"
  by (cases x) simp_all

lemma set_fst_ldm_term: "e \<in> set (fst (ldm_term fs i j)) \<Longrightarrow> e = LdmSum i j"
  by (auto simp: ldm_term_def index_def dest!: set_fst_thenL split: if_splits)

lemma set_fst_pm_block:
  "e \<in> set (fst (pm_block cfg env n fs i)) \<Longrightarrow>
   (\<exists>j. e = KlDiv i j) \<and> 1 < num_models cfg \<and> 0 < pm_loss_weight cfg"
  by (auto simp: pm_block_def dest!: set_fst_thenL set_fst_mutual_loop set_fst_pm_term
      split: if_splits)

lemma set_fst_gdm_block:
  "e \<in> set (fst (gdm_block cfg n fs i)) \<Longrightarrow>
   (\<exists>j. e = GdmSum i j) \<and> 1 < num_models cfg \<and> 0 < gdm_loss_weight cfg"
  by (auto simp: gdm_block_def dest!: set_fst_thenL set_fst_mutual_loop set_fst_gdm_term
      split: if_splits)

lemma set_fst_ldm_block:
  "e \<in> set (fst (ldm_block cfg n fs i)) \<Longrightarrow>
   (\<exists>j. e = LdmSum i j) \<and> 1 < num_models cfg \<and> local_dist_own_hard_sample cfg
     \<and> 0 < ldm_loss_weight cfg"
  by (auto simp: ldm_block_def dest!: set_fst_thenL set_fst_mutual_loop set_fst_ldm_term
      split: if_splits)

lemma pm_block_leaves:
  "snd (pm_block cfg env n fs i) = Inr r \<Longrightarrow> py_leaves r \<subseteq> leaves (log_probs (fs ! i))"
proof (cases "1 < num_models cfg \<and> 0 < pm_loss_weight cfg")
  case False
  assume "snd (pm_block cfg env n fs i) = Inr r"
  with False show ?thesis by (auto simp: pm_block_def)
next
  case True
  assume "snd (pm_block cfg env n fs i) = Inr r"
  with True obtain s where
    s: "snd (mutual_loop i (pm_term env fs i) [0..<num_models cfg] (PyNum 0)) = Inr s"
    and r: "snd (py_div s (1 * real (num_models cfg - 1) * real n)) = Inr r"
    by (auto simp: pm_block_def dest: snd_thenL_Inr)
  have "py_leaves s \<subseteq> leaves (log_probs (fs ! i))"
    by (rule mutual_loop_leaves [OF s])
       (auto simp: pm_term_def index_def detach_def split: if_splits)
  with py_div_Inr [OF r] show ?thesis by simp
qed

lemma gdm_block_leaves:
  "snd (gdm_block cfg n fs i) = Inr r \<Longrightarrow> py_leaves r \<subseteq> leaves (g_dist_mat (fs ! i))"
proof (cases "1 < num_models cfg \<and> 0 < gdm_loss_weight cfg")
  case False
  assume "snd (gdm_block cfg n fs i) = Inr r"
  with False show ?thesis by (auto simp: gdm_block_def)
next
  case True
  assume "snd (gdm_block cfg n fs i) = Inr r"
  with True obtain s where
    s: "snd (mutual_loop i (gdm_term fs i) [0..<num_models cfg] (PyNum 0)) = Inr s"
    and r: "snd (py_div s (1 * real (num_models cfg - 1) * real n * real n)) = Inr r"
    by (auto simp: gdm_block_def dest: snd_thenL_Inr)
  have "py_leaves s \<subseteq> leaves (g_dist_mat (fs ! i))"
    by (rule mutual_loop_leaves [OF s])
       (auto simp: gdm_term_def index_def detach_def torch_sum_def torch_pow_def var_sub_def
          split: if_splits)
  with py_div_Inr [OF r] show ?thesis by simp
qed

lemma leaves_py_sub_var: "leaves (py_sub_var x v) = py_leaves x \<union> leaves v"
  by (cases x) (simp_all add: var_sub_def)

lemma ldm_term_leaves:
  "snd (ldm_term fs i j) = Inr v \<Longrightarrow> leaves v = py_leaves (l_dist_mat (fs ! i))"
  by (cases "l_dist_mat (fs ! j)")
     (auto simp: ldm_term_def index_def detach_def torch_sum_def torch_pow_def
        leaves_py_sub_var split: if_splits)

lemma ldm_block_leaves:
  "snd (ldm_block cfg n fs i) = Inr r \<Longrightarrow> py_leaves r \<subseteq> py_leaves (l_dist_mat (fs ! i))"
proof (cases "1 < num_models cfg \<and> local_dist_own_hard_sample cfg \<and> 0 < ldm_loss_weight cfg")
  case False
  assume "snd (ldm_block cfg n fs i) = Inr r"
  with False show ?thesis by (auto simp: ldm_block_def)
next
  case True
  assume "snd (ldm_block cfg n fs i) = Inr r"
  with True obtain s where
    s: "snd (mutual_loop i (ldm_term fs i) [0..<num_models cfg] (PyNum 0)) = Inr s"
    and r: "snd (py_div s (1 * real (num_models cfg - 1) * real n * real n)) = Inr r"
    by (auto simp: ldm_block_def dest: snd_thenL_Inr)
  have "py_leaves s \<subseteq> py_leaves (l_dist_mat (fs ! i))"
    by (rule mutual_loop_leaves [OF s]) (auto simp: ldm_term_leaves)
  with py_div_Inr [OF r] show ?thesis by simp
qed

lemma py_leaves_py_mul [simp]: "py_leaves (py_mul p w) = py_leaves p"
  by (cases p) (simp_all add: var_mul_def)

lemma leaves_var_add_py [simp]: "leaves (var_add_py v p) = leaves v \<union> py_leaves p"
  by (cases p) simp_all

lemma leaves_total_loss:
  "leaves (total_loss cfg f pm gdm ldm) =
     leaves (g_loss f) \<union> py_leaves (l_loss f) \<union> py_leaves (id_loss f)
     \<union> py_leaves pm \<union> py_leaves gdm \<union> py_leaves ldm"
  by (simp add: total_loss_def var_mul_def)

lemma second_loop_body_cases:
  "second_loop_body cfg env n fs i =
     (case snd (pm_block cfg env n fs i) of
        Inl e \<Rightarrow> (fst (pm_block cfg env n fs i), Inl e)
      | Inr pm \<Rightarrow>
     (case snd (gdm_block cfg n fs i) of
        Inl e \<Rightarrow> (fst (pm_block cfg env n fs i) @ fst (gdm_block cfg n fs i), Inl e)
      | Inr gdm \<Rightarrow>
     (case snd (ldm_block cfg n fs i) of
        Inl e \<Rightarrow> (fst (pm_block cfg env n fs i) @ fst (gdm_block cfg n fs i)
                    @ fst (ldm_block cfg n fs i), Inl e)
      | Inr ldm \<Rightarrow>
          (fst (pm_block cfg env n fs i) @ fst (gdm_block cfg n fs i)
             @ fst (ldm_block cfg n fs i)
             @ [ZeroGrad i, Backward i (data (total_loss cfg (fs ! i) pm gdm ldm))
                              (leaves (total_loss cfg (fs ! i) pm gdm ldm))],
           Inr \<lparr>pm_loss = pm, gdm_loss = gdm, ldm_loss = ldm,
                loss = total_loss cfg (fs ! i) pm gdm ldm\<rparr>))))"
  by (simp add: second_loop_body_def thenL_def ret_def call_def split: sum.splits)

lemma fwd_of_leaves:
  "leaves (g_loss (fwd_of cfg env ims labels i)) = {i}"
  "leaves (g_dist_mat (fwd_of cfg env ims labels i)) = {i}"
  "leaves (log_probs (fwd_of cfg env ims labels i)) = {i}"
  "py_leaves (l_loss (fwd_of cfg env ims labels i)) \<subseteq> {i}"
  "py_leaves (id_loss (fwd_of cfg env ims labels i)) \<subseteq> {i}"
  "py_leaves (l_dist_mat (fwd_of cfg env ims labels i)) \<subseteq> {i}"
  by (simp_all add: fwd_of_def first_loop_body_def case_prod_beta ret_def call_def)

lemma set_fst_second_loop_body:
  assumes "e \<in> set (fst (second_loop_body cfg env n fs i))"
  shows "(\<exists>j. e = KlDiv i j) \<and> 1 < num_models cfg \<and> 0 < pm_loss_weight cfg
       \<or> (\<exists>j. e = GdmSum i j) \<and> 1 < num_models cfg \<and> 0 < gdm_loss_weight cfg
       \<or> (\<exists>j. e = LdmSum i j) \<and> 1 < num_models cfg \<and> local_dist_own_hard_sample cfg
            \<and> 0 < ldm_loss_weight cfg
       \<or> e = ZeroGrad i
       \<or> (\<exists>pm gdm ldm. snd (pm_block cfg env n fs i) = Inr pm
            \<and> snd (gdm_block cfg n fs i) = Inr gdm \<and> snd (ldm_block cfg n fs i) = Inr ldm
            \<and> e = Backward i (data (total_loss cfg (fs ! i) pm gdm ldm))
                              (leaves (total_loss cfg (fs ! i) pm gdm ldm)))"
  using assms
  by (auto simp: second_loop_body_cases split: sum.splits
      dest: set_fst_pm_block set_fst_gdm_block set_fst_ldm_block)

lemma only_meters_thenL:
  "only_meters m \<Longrightarrow> (\<And>x. only_meters (f x)) \<Longrightarrow> only_meters (thenL m f)"
  by (auto simp: only_meters_def dest!: set_fst_thenL)

lemma only_meters_if:
  "only_meters a \<Longrightarrow> only_meters b \<Longrightarrow> only_meters (if c then a else b)"
  by simp

lemma only_meters_basic:
  "only_meters (ret x)" "only_meters (raise err)" "only_meters (update m v)"
  "only_meters (to_scalar p)" "only_meters (bound y)"
  by (cases p; cases y; simp add: only_meters_def update_def bound_def)+

lemma only_meters_step_log: "only_meters (step_log cfg f s)"
  unfolding step_log_def log_global_def log_local_def log_term_def
  by (intro only_meters_thenL only_meters_if only_meters_basic)

lemma set_fst_step_log: "e \<in> set (fst (step_log cfg f s)) \<Longrightarrow> is_meter_update e"
  using only_meters_step_log [of cfg f s] by (simp add: only_meters_def)

lemma set_first_events:
  "e \<in> set (first_events cfg i) \<Longrightarrow>
   e = Forward i \<or> e = GlobalLoss i
   \<or> e = LocalLoss i (local_dist_own_hard_sample cfg) \<and> l_loss_weight cfg \<noteq> 0
   \<or> e = IdCriterion i \<and> 0 < id_loss_weight cfg \<or> e = Softmax i \<or> e = LogSoftmax i"
  by (auto simp: first_events_def split: if_splits)

lemma second_loop_fwds:
  "second_loop cfg env n (fwds cfg env ims labels) =
     forL [0..<min (num_models cfg) (num_devices env)]
       (second_loop_body cfg env n (fwds cfg env ims labels))"
  by (simp add: second_loop_def)

lemma train_step_fail:
  assumes "snd (second_loop cfg env (length ims) (fwds cfg env ims labels)) = Inl e"
  shows "train_step cfg env ims labels =
           (concat (map (first_events cfg) [0..<min (num_models cfg) (num_devices env)])
              @ fst (second_loop cfg env (length ims) (fwds cfg env ims labels)), Inl e)"
  using assms by (simp add: train_step_def first_loop_eq thenL_Inl)

lemma train_step_ok:
  assumes "snd (second_loop cfg env (length ims) (fwds cfg env ims labels)) = Inr ss"
  shows "train_step cfg env ims labels =
           (concat (map (first_events cfg) [0..<min (num_models cfg) (num_devices env)])
              @ fst (second_loop cfg env (length ims) (fwds cfg env ims labels))
              @ map OptStep [0..<num_models cfg]
              @ fst (step_tail cfg (fwds cfg env ims labels) ss),
            snd (step_tail cfg (fwds cfg env ims labels) ss))"
  using assms by (simp add: train_step_def first_loop_eq thenL_Inr opt_loop_eq step_tail_def)

lemma set_fst_step_tail: "e \<in> set (fst (step_tail cfg fs ss)) \<Longrightarrow> is_meter_update e"
  by (auto simp: step_tail_def dest: set_fst_step_log split: if_splits)

lemma set_fst_train_step:
  assumes "e \<in> set (fst (train_step cfg env ims labels))"
  shows "(\<exists>i < min (num_models cfg) (num_devices env). e \<in> set (first_events cfg i))
       \<or> (\<exists>i < min (num_models cfg) (num_devices env).
             e \<in> set (fst (second_loop_body cfg env (length ims) (fwds cfg env ims labels) i)))
       \<or> (\<exists>k < num_models cfg. e = OptStep k)
       \<or> is_meter_update e"
proof (cases "snd (second_loop cfg env (length ims) (fwds cfg env ims labels))")
  case (Inl err)
  from assms show ?thesis
    unfolding train_step_fail [OF Inl]
    by (auto simp: second_loop_fwds dest!: set_fst_forL)
next
  case (Inr ss)
  from assms show ?thesis
    unfolding train_step_ok [OF Inr]
    by (auto simp: second_loop_fwds dest!: set_fst_forL set_fst_step_tail)
qed

lemma backward_in_train_step:
  assumes "Backward i v ls \<in> set (fst (train_step cfg env ims labels))"
  shows "ls = {i}"
proof -
  let ?fs = "fwds cfg env ims labels"
  from set_fst_train_step [OF assms(1)]
  obtain i' where i': "i' < min (num_models cfg) (num_devices env)"
    and mem: "Backward i v ls \<in> set (fst (second_loop_body cfg env (length ims) ?fs i'))"
    by (auto dest: set_first_events)
  from set_fst_second_loop_body [OF mem]
  obtain pm gdm ldm where pm: "snd (pm_block cfg env (length ims) ?fs i') = Inr pm"
    and gdm: "snd (gdm_block cfg (length ims) ?fs i') = Inr gdm"
    and ldm: "snd (ldm_block cfg (length ims) ?fs i') = Inr ldm"
    and eq: "i = i'" "ls = leaves (total_loss cfg (?fs ! i') pm gdm ldm)"
    by auto
  have f: "?fs ! i' = fwd_of cfg env ims labels i'" using i' by simp
  show "ls = {i}"
    using pm_block_leaves [OF pm] gdm_block_leaves [OF gdm] ldm_block_leaves [OF ldm]
      fwd_of_leaves [of cfg env ims labels i']
    unfolding eq leaves_total_loss f by auto
qed

lemma not_opt_first_events: "e \<in> set (first_events cfg i) \<Longrightarrow> \<not> is_opt_step e"
  by (auto dest: set_first_events)

lemma not_opt_second_loop_body:
  "e \<in> set (fst (second_loop_body cfg env n fs i)) \<Longrightarrow> \<not> is_opt_step e"
  by (auto dest: set_fst_second_loop_body)

lemma not_opt_meter: "is_meter_update e \<Longrightarrow> \<not> is_opt_step e"
  by (cases e) simp_all

lemma filter_opt_map [simp]: "filter is_opt_step (map OptStep ks) = map OptStep ks"
  by (induction ks) simp_all

lemma filter_none: "(\<And>e. e \<in> set es \<Longrightarrow> \<not> P e) \<Longrightarrow> filter P es = []"
  by (induction es) simp_all

lemma second_loop_body_Inr:
  assumes "snd (second_loop_body cfg env n fs i) = Inr s"
  shows "\<exists>a. fst (second_loop_body cfg env n fs i)
              = a @ [ZeroGrad i, Backward i (data (loss s)) (leaves (loss s))]"
  using assms by (auto simp: second_loop_body_cases split: sum.splits)

lemma concat_map_upt_split:
  "i < m \<Longrightarrow> concat (map g [0..<m])
     = concat (map g [0..<i]) @ g i @ concat (map g [Suc i..<m])"
proof -
  assume "i < m"
  then have "[0..<m] = [0..<i] @ [i..<m]"
    using upt_add_eq_append [of 0 i "m - i"] by simp
  with \<open>i < m\<close> have "[0..<m] = [0..<i] @ i # [Suc i..<m]"
    by (simp add: upt_conv_Cons)
  then show ?thesis by simp
qed

lemma global_loss_in_trace:
  assumes "i < min (num_models cfg) (num_devices env)"
  shows "GlobalLoss i \<in> set (fst (train_step cfg env ims labels))"
proof -
  have "GlobalLoss i \<in> set (concat (map (first_events cfg)
          [0..<min (num_models cfg) (num_devices env)]))"
    using assms by (auto simp: first_events_def)
  then show ?thesis
    by (cases "snd (second_loop cfg env (length ims) (fwds cfg env ims labels))")
       (simp_all add: train_step_fail train_step_ok)
qed

lemma pm_block_disabled:
  "\<not> (1 < num_models cfg \<and> 0 < pm_loss_weight cfg) \<Longrightarrow>
   pm_block cfg env n fs i = ([], Inr (PyNum 0))"
  by (auto simp: pm_block_def ret_def)

lemma gdm_block_disabled:
  "\<not> (1 < num_models cfg \<and> 0 < gdm_loss_weight cfg) \<Longrightarrow>
   gdm_block cfg n fs i = ([], Inr (PyNum 0))"
  by (auto simp: gdm_block_def ret_def)

lemma ldm_block_disabled:
  "\<not> (1 < num_models cfg \<and> local_dist_own_hard_sample cfg \<and> 0 < ldm_loss_weight cfg) \<Longrightarrow>
   ldm_block cfg n fs i = ([], Inr (PyNum 0))"
  by (auto simp: ldm_block_def ret_def)

lemma pm_block_total:
  "num_models cfg \<le> length fs \<Longrightarrow> \<exists>r. snd (pm_block cfg env n fs i) = Inr r"
  by (cases "1 < num_models cfg \<and> 0 < pm_loss_weight cfg")
     (simp_all add: pm_block_ok pm_block_disabled)

lemma gdm_block_total:
  "num_models cfg \<le> length fs \<Longrightarrow> \<exists>r. snd (gdm_block cfg n fs i) = Inr r"
  by (cases "1 < num_models cfg \<and> 0 < gdm_loss_weight cfg")
     (simp_all add: gdm_block_ok gdm_block_disabled)

lemma mutual_loop_all_fail:
  "\<forall>j \<in> set js. j \<noteq> i \<longrightarrow> (\<exists>e. snd (term j) = Inl e) \<Longrightarrow> \<exists>j \<in> set js. j \<noteq> i \<Longrightarrow>
   \<exists>e. snd (mutual_loop i term js acc) = Inl e"
  by (induction js arbitrary: acc) (auto simp: thenL_Inl)

lemma ldm_term_num:
  "\<forall>j < length fs. \<exists>a. l_dist_mat (fs ! j) = PyNum a \<Longrightarrow> \<exists>e. snd (ldm_term fs i j) = Inl e"
  by (cases "j < length fs") (auto simp: ldm_term_def index_def)

lemma ldm_term_num_attr:
  "j < length fs \<Longrightarrow> l_dist_mat (fs ! j) = PyNum a \<Longrightarrow>
   ldm_term fs i j = ([], Inl AttributeError)"
  by (simp add: ldm_term_def raise_def)

lemma snd_thenL_Inl: "snd m = Inl e \<Longrightarrow> snd (thenL m f) = Inl e"
  by (simp add: thenL_Inl)

lemma ldm_block_nums_fail:
  assumes "1 < num_models cfg" "local_dist_own_hard_sample cfg" "0 < ldm_loss_weight cfg"
    and "\<forall>j < length fs. \<exists>a. l_dist_mat (fs ! j) = PyNum a"
  shows "\<exists>e. snd (ldm_block cfg n fs i) = Inl e"
proof -
  have "\<exists>j \<in> set [0..<num_models cfg]. j \<noteq> i"
    using assms(1) by (intro bexI [of _ "if i = 0 then 1 else 0"]) auto
  with assms(4) have "\<exists>e. snd (mutual_loop i (ldm_term fs i) [0..<num_models cfg] (PyNum 0)) = Inl e"
    by (intro mutual_loop_all_fail) (auto intro: ldm_term_num)
  with assms(1-3) show ?thesis
    by (auto simp: ldm_block_def intro: snd_thenL_Inl)
qed

lemma ldm_block_nums_attr:
  assumes "1 < num_models cfg" "local_dist_own_hard_sample cfg" "0 < ldm_loss_weight cfg"
    and "num_models cfg \<le> length fs"
    and "\<forall>j < num_models cfg. \<exists>a. l_dist_mat (fs ! j) = PyNum a"
  shows "ldm_block cfg n fs i = ([], Inl AttributeError)"
proof -
  have "\<exists>j \<in> set [0..<num_models cfg]. j \<noteq> i"
    using assms(1) by (intro bexI [of _ "if i = 0 then 1 else 0"]) auto
  moreover have "ldm_term fs i j = ([], Inl AttributeError)"
    if "j \<in> set [0..<num_models cfg]" for j
  proof -
    from that have j: "j < num_models cfg" by simp
    with assms(5) obtain a where "l_dist_mat (fs ! j) = PyNum a" by blast
    with j assms(4) show ?thesis by (intro ldm_term_num_attr) simp_all
  qed
  ultimately have "mutual_loop i (ldm_term fs i) [0..<num_models cfg] (PyNum 0)
      = ([], Inl AttributeError)"
    by (intro mutual_loop_fail) simp_all
  with assms(1-3) show ?thesis
    by (simp add: ldm_block_def)
qed

lemma fwd_of_no_local:
  "l_loss_weight cfg = 0 \<Longrightarrow> l_loss (fwd_of cfg env ims labels i) = PyNum 0"
  "l_loss_weight cfg = 0 \<Longrightarrow> l_dist_mat (fwd_of cfg env ims labels i) = PyNum 0"
  by (simp_all add: fwd_of_def first_loop_body_def case_prod_beta ret_def call_def)

lemma fwds_no_local:
  "l_loss_weight cfg = 0 \<Longrightarrow>
   \<forall>j < length (fwds cfg env ims labels). \<exists>a. l_dist_mat (fwds cfg env ims labels ! j) = PyNum a"
  by (simp add: fwd_of_no_local)

lemma forL_first_fails:
  "snd (f i) = Inl e \<Longrightarrow> forL (i # is) f = (fst (f i), Inl e)"
  by (simp add: thenL_Inl)

lemma train_step_no_opt_on_failure:
  assumes "snd (second_loop cfg env (length ims) (fwds cfg env ims labels)) = Inl e"
  shows "\<not> is_opt_step x \<or> x \<notin> set (fst (train_step cfg env ims labels))"
  unfolding train_step_fail [OF assms]
  by (auto simp: second_loop_fwds dest!: set_fst_forL not_opt_first_events
      not_opt_second_loop_body)

lemma py_data_py_mul [simp]: "py_data (py_mul p w) = py_data p * w"
  by (cases p) (simp_all add: var_mul_def)

lemma data_var_add_py [simp]: "data (var_add_py v p) = data v + py_data p"
  by (cases p) simp_all

lemma data_total_loss:
  "data (total_loss cfg f pm gdm ldm) =
     data (g_loss f) * g_loss_weight cfg + py_data (l_loss f) * l_loss_weight cfg
     + py_data (id_loss f) * id_loss_weight cfg + py_data pm * pm_loss_weight cfg
     + py_data gdm * gdm_loss_weight cfg + py_data ldm * ldm_loss_weight cfg"
  by (simp add: total_loss_def var_mul_def)

lemma total_loss_without_ldm:
  "total_loss cfg f pm gdm (PyNum 0) =
     var_add_py (var_add_py (var_add_py (var_add_py
       (var_mul (g_loss f) (g_loss_weight cfg))
       (py_mul (l_loss f) (l_loss_weight cfg)))
       (py_mul (id_loss f) (id_loss_weight cfg)))
       (py_mul pm (pm_loss_weight cfg)))
       (py_mul gdm (gdm_loss_weight cfg))"
  by (simp only: total_loss_def py_mul.simps var_add_py.simps mult_zero_left add_0_right
      var.collapse)

lemma fwd_of_no_id:
  "\<not> 0 < id_loss_weight cfg \<Longrightarrow> id_loss (fwd_of cfg env ims labels i) = PyNum 0"
  by (simp add: fwd_of_def first_loop_body_def case_prod_beta ret_def call_def)

lemma ldm_in_trace:
  "LdmSum i j \<in> set (fst (train_step cfg env ims labels)) \<Longrightarrow>
   1 < num_models cfg \<and> local_dist_own_hard_sample cfg \<and> 0 < ldm_loss_weight cfg"
  by (auto dest!: set_fst_train_step set_first_events set_fst_second_loop_body)

lemma local_loss_not_in_trace:
  "l_loss_weight cfg = 0 \<Longrightarrow> LocalLoss i b \<notin> set (fst (train_step cfg env ims labels))"
  by (auto dest!: set_fst_train_step set_first_events set_fst_second_loop_body)

lemma backward_value:
  assumes "Backward i v ls \<in> set (fst (train_step cfg env ims labels))"
  shows "i < min (num_models cfg) (num_devices env)
       \<and> (\<exists>pm gdm ldm.
             snd (pm_block cfg env (length ims) (fwds cfg env ims labels) i) = Inr pm
           \<and> snd (gdm_block cfg (length ims) (fwds cfg env ims labels) i) = Inr gdm
           \<and> snd (ldm_block cfg (length ims) (fwds cfg env ims labels) i) = Inr ldm
           \<and> v = data (total_loss cfg (fwd_of cfg env ims labels i) pm gdm ldm))"
proof -
  let ?fs = "fwds cfg env ims labels"
  from set_fst_train_step [OF assms(1)]
  obtain i' where i': "i' < min (num_models cfg) (num_devices env)"
    and mem: "Backward i v ls \<in> set (fst (second_loop_body cfg env (length ims) ?fs i'))"
    by (auto dest: set_first_events)
  from set_fst_second_loop_body [OF mem]
  obtain pm gdm ldm where "snd (pm_block cfg env (length ims) ?fs i') = Inr pm"
    "snd (gdm_block cfg (length ims) ?fs i') = Inr gdm"
    "snd (ldm_block cfg (length ims) ?fs i') = Inr ldm"
    "i = i'" "v = data (total_loss cfg (?fs ! i') pm gdm ldm)"
    by auto
  with i' show ?thesis by auto
qed

lemma sum_list_peers:
  "sum_list (map f (peers m i)) = (\<Sum>j \<in> {0..<m} - {i}. f j)"
proof -
  have "distinct (peers m i)" by (simp add: peers_def)
  moreover have "set (peers m i) = {0..<m} - {i}" by (auto simp: peers_def)
  ultimately show ?thesis by (simp add: sum_list_distinct_conv_sum_set)
qed

lemma sum_list_nth: "sum_list xs = (\<Sum>a < length xs. xs ! a)"
  by (simp add: sum_list_sum_nth atLeast0LessThan)

lemma mat_sum_pow_sub:
  assumes "is_square n a" "is_square n b"
  shows "mat_sum (mat_pow (mat_sub a b) 2) = (\<Sum>x < n. \<Sum>y < n. (a ! x ! y - b ! x ! y) ^ 2)"
proof -
  have la: "length a = n" and lb: "length b = n"
    and ra: "\<And>x. x < n \<Longrightarrow> length (a ! x) = n" and rb: "\<And>x. x < n \<Longrightarrow> length (b ! x) = n"
    using assms by (auto simp: is_square_def)
  have "mat_sum (mat_pow (mat_sub a b) 2)
      = (\<Sum>x < n. sum_list (map (\<lambda>z. z ^ 2) (map2 (\<lambda>p q. p - q) (a ! x) (b ! x))))"
    unfolding mat_sum_def mat_pow_def mat_sub_def
    by (subst sum_list_nth) (simp add: la lb)
  also have "\<dots> = (\<Sum>x < n. \<Sum>y < n. (a ! x ! y - b ! x ! y) ^ 2)"
  proof (rule sum.cong [OF refl])
    fix x assume "x \<in> {..<n}"
    then have x: "x < n" by simp
    show "sum_list (map (\<lambda>z. z ^ 2) (map2 (\<lambda>p q. p - q) (a ! x) (b ! x)))
        = (\<Sum>y < n. (a ! x ! y - b ! x ! y) ^ 2)"
      by (subst sum_list_nth) (simp add: ra [OF x] rb [OF x])
  qed
  finally show ?thesis .
qed

lemma fst_thenL_Inr: "snd m = Inr x \<Longrightarrow> fst (thenL m f) = fst m @ fst (f x)"
  by (simp add: thenL_def)

lemma snd_thenL_Inr2: "snd m = Inr x \<Longrightarrow> snd (thenL m f) = snd (f x)"
  by (simp add: thenL_def)

lemma log_global_eq: "log_global cfg f = (global_events cfg f, Inr ())"
  by (simp add: log_global_def global_events_def update_def call_def ret_def)

lemma log_local_Inr:
  "snd (log_local cfg f) = Inr u \<Longrightarrow> fst (log_local cfg f) = local_events cfg f"
  by (cases "0 < l_loss_weight cfg"; cases "l_dist_an f"; cases "l_dist_ap f"; cases "l_loss f")
     (simp_all add: log_local_def local_events_def bound_def update_def call_def ret_def
        raise_def)

lemma log_local_ok:
  "(0 < l_loss_weight cfg \<Longrightarrow>
      (\<exists>a. l_dist_an f = Some a) \<and> (\<exists>a. l_dist_ap f = Some a) \<and> (\<exists>v. l_loss f = PyVar v)) \<Longrightarrow>
   snd (log_local cfg f) = Inr ()"
  by (cases "0 < l_loss_weight cfg")
     (auto simp: log_local_def bound_def update_def call_def ret_def)

lemma log_term_Inr:
  "snd (log_term c m x) = Inr u \<Longrightarrow> fst (log_term c m x) = term_events c m x"
  by (cases c; cases x)
     (simp_all add: log_term_def term_events_def update_def call_def ret_def raise_def)

lemma log_term_ok: "(c \<Longrightarrow> \<exists>v. x = PyVar v) \<Longrightarrow> snd (log_term c m x) = Inr ()"
  by (cases c) (auto simp: log_term_def update_def call_def ret_def)

lemma log_loss_eq:
  "thenL (to_scalar (PyVar v)) (\<lambda>x. update loss_meter x)
     = ([MeterUpdate loss_meter (data v)], Inr ())"
  by (simp add: update_def call_def ret_def)

lemma step_log_Inr:
  assumes "snd (step_log cfg f s) = Inr u"
  shows "fst (step_log cfg f s) = step_log_events cfg f s"
proof -
  let ?t1 = "log_term (id_loss_weight cfg > 0) id_loss_meter (id_loss f)"
  let ?t2 = "log_term (num_models cfg > 1 \<and> pm_loss_weight cfg > 0) pm_loss_meter (pm_loss s)"
  let ?t3 = "log_term (num_models cfg > 1 \<and> gdm_loss_weight cfg > 0) gdm_loss_meter (gdm_loss s)"
  let ?t4 = "log_term (num_models cfg > 1 \<and> local_dist_own_hard_sample cfg
                      \<and> ldm_loss_weight cfg > 0) ldm_loss_meter (ldm_loss s)"
  from assms have a: "snd (thenL (log_local cfg f) (\<lambda>_. thenL ?t1 (\<lambda>_. thenL ?t2 (\<lambda>_.
      thenL ?t3 (\<lambda>_. thenL ?t4 (\<lambda>_.
      thenL (to_scalar (PyVar (loss s))) (\<lambda>v. update loss_meter v))))))) = Inr u"
    by (simp add: step_log_def log_global_eq)
  from snd_thenL_Inr [OF a] obtain x1 where l: "snd (log_local cfg f) = Inr x1"
    and b: "snd (thenL ?t1 (\<lambda>_. thenL ?t2 (\<lambda>_.
      thenL ?t3 (\<lambda>_. thenL ?t4 (\<lambda>_.
      thenL (to_scalar (PyVar (loss s))) (\<lambda>v. update loss_meter v)))))) = Inr u"
    by blast
  from snd_thenL_Inr [OF b] obtain x2 where t1: "snd ?t1 = Inr x2"
    and c: "snd (thenL ?t2 (\<lambda>_.
      thenL ?t3 (\<lambda>_. thenL ?t4 (\<lambda>_.
      thenL (to_scalar (PyVar (loss s))) (\<lambda>v. update loss_meter v))))) = Inr u"
    by blast
  from snd_thenL_Inr [OF c] obtain x3 where t2: "snd ?t2 = Inr x3"
    and d: "snd (thenL ?t3 (\<lambda>_. thenL ?t4 (\<lambda>_.
      thenL (to_scalar (PyVar (loss s))) (\<lambda>v. update loss_meter v)))) = Inr u"
    by blast
  from snd_thenL_Inr [OF d] obtain x4 where t3: "snd ?t3 = Inr x4"
    and e: "snd (thenL ?t4 (\<lambda>_.
      thenL (to_scalar (PyVar (loss s))) (\<lambda>v. update loss_meter v))) = Inr u"
    by blast
  from snd_thenL_Inr [OF e] obtain x5 where t4: "snd ?t4 = Inr x5"
    by blast
  have g: "snd (log_global cfg f) = Inr ()" and fg: "fst (log_global cfg f) = global_events cfg f"
    by (simp_all add: log_global_eq)
  have fl: "fst (thenL (to_scalar (PyVar (loss s))) (\<lambda>v. update loss_meter v))
      = [MeterUpdate loss_meter (data (loss s))]"
    by (simp add: update_def)
  show ?thesis
    by (simp only: step_log_def step_log_events_def fst_thenL_Inr [OF g] fst_thenL_Inr [OF l]
        fst_thenL_Inr [OF t1] fst_thenL_Inr [OF t2] fst_thenL_Inr [OF t3]
        fst_thenL_Inr [OF t4] fg fl log_local_Inr [OF l] log_term_Inr [OF t1]
        log_term_Inr [OF t2] log_term_Inr [OF t3] log_term_Inr [OF t4])
qed

lemma step_log_ok:
  assumes "snd (log_local cfg f) = Inr ()"
    and "snd (log_term (id_loss_weight cfg > 0) id_loss_meter (id_loss f)) = Inr ()"
    and "snd (log_term (num_models cfg > 1 \<and> pm_loss_weight cfg > 0)
           pm_loss_meter (pm_loss s)) = Inr ()"
    and "snd (log_term (num_models cfg > 1 \<and> gdm_loss_weight cfg > 0)
           gdm_loss_meter (gdm_loss s)) = Inr ()"
    and "snd (log_term (num_models cfg > 1 \<and> local_dist_own_hard_sample cfg
                      \<and> ldm_loss_weight cfg > 0) ldm_loss_meter (ldm_loss s)) = Inr ()"
  shows "snd (step_log cfg f s) = Inr ()"
proof -
  have g: "snd (log_global cfg f) = Inr ()" by (simp add: log_global_eq)
  have sl: "snd (thenL (to_scalar (PyVar (loss s))) (\<lambda>v. update loss_meter v)) = Inr ()"
    by (simp add: update_def)
  show ?thesis
    by (simp only: step_log_def snd_thenL_Inr2 [OF g] snd_thenL_Inr2 [OF assms(1)]
        snd_thenL_Inr2 [OF assms(2)] snd_thenL_Inr2 [OF assms(3)] snd_thenL_Inr2 [OF assms(4)]
        snd_thenL_Inr2 [OF assms(5)] sl)
qed

lemma not_meter_first_events: "e \<in> set (first_events cfg i) \<Longrightarrow> \<not> is_meter_update e"
  by (auto dest: set_first_events)

lemma not_meter_second_loop_body:
  "e \<in> set (fst (second_loop_body cfg env n fs i)) \<Longrightarrow> \<not> is_meter_update e"
  by (auto dest: set_fst_second_loop_body)

lemma filter_meter_opt [simp]: "filter is_meter_update (map OptStep ks) = []"
  by (induction ks) simp_all

lemma last_fwds:
  "1 \<le> num_models cfg \<Longrightarrow> num_models cfg \<le> num_devices env \<Longrightarrow>
   fwds cfg env ims labels \<noteq> []
   \<and> last (fwds cfg env ims labels) = fwd_of cfg env ims labels (num_models cfg - 1)"
  by (simp add: fwds_def last_map min_absorb1)

lemma fst_thenL_prefix: "\<exists>es. fst (thenL m f) = fst m @ es"
  by (cases "snd m") (simp_all add: thenL_def)

lemma main_starts_training:
  assumes "\<not> only_test cfg" "start_ep env < total_epochs cfg"
  shows "\<exists>es. fst (main cfg env ((ims, labels, d) # ds)) = fst (train_step cfg env ims labels) @ es"
proof -
  obtain k where k: "total_epochs cfg - start_ep env = Suc k"
    using assms(2) by (metis Suc_diff_Suc)
  obtain e1 where e1: "fst (epoch_loop cfg env ((ims, labels, d) # ds))
      = fst (train_step cfg env ims labels) @ e1"
    using fst_thenL_prefix by (metis epoch_loop.simps(2))
  obtain e2 where e2: "fst (epochs_loop cfg env (Suc k) ((ims, labels, d) # ds))
      = fst (epoch_loop cfg env ((ims, labels, d) # ds)) @ e2"
    using fst_thenL_prefix by (metis epochs_loop.simps(2))
  obtain e3 where e3: "fst (main cfg env ((ims, labels, d) # ds))
      = fst (epochs_loop cfg env (Suc k) ((ims, labels, d) # ds)) @ e3"
    using fst_thenL_prefix [of "epochs_loop cfg env (Suc k) ((ims, labels, d) # ds)"]
      assms(1) by (auto simp: main_def k)
  show ?thesis unfolding e3 e2 e1 by simp
qed

lemma fwd_of_local_bound:
  "0 < l_loss_weight cfg \<Longrightarrow>
   (\<exists>a. l_dist_an (fwd_of cfg env ims labels i) = Some a)
   \<and> (\<exists>a. l_dist_ap (fwd_of cfg env ims labels i) = Some a)
   \<and> (\<exists>v. l_loss (fwd_of cfg env ims labels i) = PyVar v)"
  by (simp add: fwd_of_def first_loop_body_def case_prod_beta ret_def call_def)

lemma fwd_of_id_var:
  "0 < id_loss_weight cfg \<Longrightarrow> \<exists>v. id_loss (fwd_of cfg env ims labels i) = PyVar v"
  by (simp add: fwd_of_def first_loop_body_def case_prod_beta ret_def call_def)

lemma one_model_step_returns:
  assumes "num_models cfg = 1" "1 \<le> num_devices env"
  shows "snd (train_step cfg env ims labels) = Inr ()"
proof -
  let ?fs = "fwds cfg env ims labels"
  let ?f = "fwd_of cfg env ims labels 0"
  let ?s = "\<lparr>pm_loss = PyNum 0, gdm_loss = PyNum 0, ldm_loss = PyNum 0,
             loss = total_loss cfg (?fs ! 0) (PyNum 0) (PyNum 0) (PyNum 0)\<rparr>"
  have m: "min (num_models cfg) (num_devices env) = 1" using assms by simp
  have body: "snd (second_loop_body cfg env (length ims) ?fs 0) = Inr ?s"
    using assms(1)
    by (simp add: second_loop_body_cases pm_block_disabled gdm_block_disabled ldm_block_disabled)
  have sl: "snd (second_loop cfg env (length ims) ?fs) = Inr [?s]"
    by (simp add: second_loop_fwds m thenL_Inr [OF body] ret_def)
  have fs: "?fs = [?f]" by (simp add: fwds_def m)
  have "snd (step_log cfg ?f ?s) = Inr ()"
    using assms(1)
    by (intro step_log_ok log_local_ok log_term_ok)
       (simp_all add: fwd_of_local_bound fwd_of_id_var)
  then show ?thesis
    by (simp add: train_step_ok [OF sl] step_tail_def fs)
qed

lemma second_loop_body_Inr_terms:
  assumes "snd (second_loop_body cfg env n fs i) = Inr s"
  shows "snd (pm_block cfg env n fs i) = Inr (pm_loss s)
       \<and> snd (gdm_block cfg n fs i) = Inr (gdm_loss s)
       \<and> snd (ldm_block cfg n fs i) = Inr (ldm_loss s)
       \<and> loss s = total_loss cfg (fs ! i) (pm_loss s) (gdm_loss s) (ldm_loss s)"
  using assms by (auto simp: second_loop_body_cases split: sum.splits)

lemma no_id_call:
  "\<not> 0 < id_loss_weight cfg \<Longrightarrow> IdCriterion i \<notin> set (fst (train_step cfg env ims labels))"
  by (auto dest!: set_fst_train_step set_first_events set_fst_second_loop_body)

lemma no_kl_call:
  "\<not> (1 < num_models cfg \<and> 0 < pm_loss_weight cfg) \<Longrightarrow>
   KlDiv i j \<notin> set (fst (train_step cfg env ims labels))"
  by (auto dest!: set_fst_train_step set_first_events set_fst_second_loop_body)

lemma no_gdm_call:
  "\<not> (1 < num_models cfg \<and> 0 < gdm_loss_weight cfg) \<Longrightarrow>
   GdmSum i j \<notin> set (fst (train_step cfg env ims labels))"
  by (auto dest!: set_fst_train_step set_first_events set_fst_second_loop_body)

lemma no_ldm_call:
  "\<not> (1 < num_models cfg \<and> local_dist_own_hard_sample cfg \<and> 0 < ldm_loss_weight cfg) \<Longrightarrow>
   LdmSum i j \<notin> set (fst (train_step cfg env ims labels))"
  by (auto dest!: set_fst_train_step set_first_events set_fst_second_loop_body)

section \<open>The claims\<close>

subsection \<open>C1: gradient isolation\<close>

text \<open>
  C1. In every training step, every backward pass the step runs, \<open>Backward i v ls\<close>, is
  on a loss whose graph reaches the parameters of model \<open>i\<close> only: the mutual-loss terms
  read the peers' probabilities and distance matrices through \<^verbatim>\<open>.detach()\<close>. So the
  backward pass of model \<open>i\<close> leaves the accumulated gradient of every other model \<open>j\<close>
  and all parameters as they were. The two-model ensemble with only the probability mutual
  loss enabled is the instance \<open>cfg_pm\<close> of the witness.
\<close>

theorem backward_leaves_peers_untouched:
  assumes "Backward i v ls \<in> set (fst (train_step cfg env ims labels))" and "j \<noteq> i"
  shows "ls = {i}
       \<and> grads (apply_event upd (Backward i v ls) st) j = grads st j
       \<and> params (apply_event upd (Backward i v ls) st) = params st"
  using backward_in_train_step [OF assms(1)] assms(2) by simp

theorem backward_leaves_peers_untouched_witness:
  "Backward 0 (3 / 2) {0} \<in> set (fst (train_step cfg_pm env2 [0, 1] [7, 7]))
   \<and> (1 :: nat) \<noteq> 0
   \<and> grads (apply_event upd0 (Backward 0 (3 / 2) {0}) st0) 1 = grads st0 1
   \<and> params (apply_event upd0 (Backward 0 (3 / 2) {0}) st0) = params st0"
proof -
  have h: "Backward 0 (3 / 2) {0} \<in> set (fst (train_step cfg_pm env2 [0, 1] [7, 7]))"
    by code_simp
  have n: "(1 :: nat) \<noteq> 0" by simp
  from backward_leaves_peers_untouched [OF h n, of upd0 st0] h n show ?thesis by simp
qed

subsection \<open>C2: all backward passes before any optimizer step\<close>

text \<open>
  C2. With one device handle per model, a training step that completes, or that invokes
  any optimizer step at all, has a log of the form \<open>pre @ [OptStep 0, ..., OptStep (M-1)]
  @ post\<close>: no optimizer step occurs in \<open>pre\<close> or \<open>post\<close>, and \<open>pre\<close> holds, for every
  model \<open>i\<close>, the zeroing of its gradients followed at once by the backward pass of its
  total loss. The value back-propagated is the sum of lines 328-333: the global, local and
  classification terms of model \<open>i\<close> from the first loop and the three mutual terms its
  iteration of the second loop computed, each times its weight; its graph reaches model
  \<open>i\<close> only. So every model's loss is composed, zeroed and back-propagated before the
  first optimizer step, and each optimizer steps exactly once.
\<close>

theorem optimizer_steps_after_all_backward:
  assumes "num_models cfg \<le> num_devices env"
    and "snd (train_step cfg env ims labels) = Inr ()
         \<or> (\<exists>k. OptStep k \<in> set (fst (train_step cfg env ims labels)))"
  shows "\<exists>pre post.
           fst (train_step cfg env ims labels) = pre @ map OptStep [0..<num_models cfg] @ post
         \<and> (\<forall>e \<in> set pre \<union> set post. \<not> is_opt_step e)
         \<and> (\<forall>i < num_models cfg. \<exists>a c pm gdm ldm.
               snd (pm_block cfg env (length ims) (fwds cfg env ims labels) i) = Inr pm
             \<and> snd (gdm_block cfg (length ims) (fwds cfg env ims labels) i) = Inr gdm
             \<and> snd (ldm_block cfg (length ims) (fwds cfg env ims labels) i) = Inr ldm
             \<and> pre = a @ [ZeroGrad i, Backward i
                   (data (g_loss (fwd_of cfg env ims labels i)) * g_loss_weight cfg
                    + py_data (l_loss (fwd_of cfg env ims labels i)) * l_loss_weight cfg
                    + py_data (id_loss (fwd_of cfg env ims labels i)) * id_loss_weight cfg
                    + py_data pm * pm_loss_weight cfg
                    + py_data gdm * gdm_loss_weight cfg
                    + py_data ldm * ldm_loss_weight cfg) {i}] @ c)
         \<and> filter is_opt_step (fst (train_step cfg env ims labels))
             = map OptStep [0..<num_models cfg]"
proof -
  let ?fs = "fwds cfg env ims labels"
  let ?sl = "second_loop cfg env (length ims) ?fs"
  let ?g = "\<lambda>i. fst (second_loop_body cfg env (length ims) ?fs i)"
  let ?fe = "concat (map (first_events cfg) [0..<min (num_models cfg) (num_devices env)])"
  have m: "min (num_models cfg) (num_devices env) = num_models cfg"
    using assms(1) by simp
  have "\<exists>ss. snd ?sl = Inr ss"
  proof (cases "snd ?sl")
    case (Inl err)
    have "\<forall>e \<in> set (fst (train_step cfg env ims labels)). \<not> is_opt_step e"
      unfolding train_step_fail [OF Inl]
      by (auto simp: second_loop_fwds dest!: set_fst_forL not_opt_first_events
          not_opt_second_loop_body)
    moreover have "snd (train_step cfg env ims labels) \<noteq> Inr ()"
      unfolding train_step_fail [OF Inl] by simp
    ultimately show ?thesis using assms(2) by fastforce
  next
    case (Inr ss)
    then show ?thesis by blast
  qed
  then obtain ss where ss: "snd ?sl = Inr ss" ..
  from forL_Inr [OF ss [unfolded second_loop_fwds]]
  have ok: "\<And>k. k < num_models cfg \<Longrightarrow>
               snd (second_loop_body cfg env (length ims) ?fs k) = Inr (ss ! k)"
    and ev: "fst ?sl = concat (map ?g [0..<num_models cfg])"
    by (simp_all add: m second_loop_fwds)
  let ?pre = "?fe @ fst ?sl"
  let ?post = "fst (step_tail cfg ?fs ss)"
  have tr: "fst (train_step cfg env ims labels) = ?pre @ map OptStep [0..<num_models cfg] @ ?post"
    unfolding train_step_ok [OF ss] by simp
  have pre: "\<forall>e \<in> set ?pre. \<not> is_opt_step e"
    by (auto simp: second_loop_fwds dest!: set_fst_forL not_opt_first_events
        not_opt_second_loop_body)
  have post: "\<forall>e \<in> set ?post. \<not> is_opt_step e"
    by (auto dest!: set_fst_step_tail not_opt_meter)
  have each: "\<exists>a c pm gdm ldm.
               snd (pm_block cfg env (length ims) ?fs i) = Inr pm
             \<and> snd (gdm_block cfg (length ims) ?fs i) = Inr gdm
             \<and> snd (ldm_block cfg (length ims) ?fs i) = Inr ldm
             \<and> ?pre = a @ [ZeroGrad i, Backward i
                   (data (g_loss (fwd_of cfg env ims labels i)) * g_loss_weight cfg
                    + py_data (l_loss (fwd_of cfg env ims labels i)) * l_loss_weight cfg
                    + py_data (id_loss (fwd_of cfg env ims labels i)) * id_loss_weight cfg
                    + py_data pm * pm_loss_weight cfg
                    + py_data gdm * gdm_loss_weight cfg
                    + py_data ldm * ldm_loss_weight cfg) {i}] @ c"
    if i: "i < num_models cfg" for i
  proof -
    let ?s = "ss ! i"
    from second_loop_body_Inr [OF ok [OF i]] obtain a where
      a: "?g i = a @ [ZeroGrad i, Backward i (data (loss ?s)) (leaves (loss ?s))]"
      by blast
    have f: "?fs ! i = fwd_of cfg env ims labels i" using i assms(1) by simp
    from second_loop_body_Inr_terms [OF ok [OF i]]
    have t: "snd (pm_block cfg env (length ims) ?fs i) = Inr (pm_loss ?s)"
      "snd (gdm_block cfg (length ims) ?fs i) = Inr (gdm_loss ?s)"
      "snd (ldm_block cfg (length ims) ?fs i) = Inr (ldm_loss ?s)"
      and l: "loss ?s = total_loss cfg (fwd_of cfg env ims labels i)
                 (pm_loss ?s) (gdm_loss ?s) (ldm_loss ?s)"
      unfolding f by simp_all
    have split: "?pre = (?fe @ concat (map ?g [0..<i]) @ a)
        @ [ZeroGrad i, Backward i (data (loss ?s)) (leaves (loss ?s))]
        @ concat (map ?g [Suc i..<num_models cfg])"
      unfolding ev concat_map_upt_split [OF i, of ?g] a by simp
    then have "Backward i (data (loss ?s)) (leaves (loss ?s))
        \<in> set (fst (train_step cfg env ims labels))"
      unfolding tr by simp
    then have lv: "leaves (loss ?s) = {i}" by (rule backward_in_train_step)
    have d: "data (loss ?s) =
        data (g_loss (fwd_of cfg env ims labels i)) * g_loss_weight cfg
        + py_data (l_loss (fwd_of cfg env ims labels i)) * l_loss_weight cfg
        + py_data (id_loss (fwd_of cfg env ims labels i)) * id_loss_weight cfg
        + py_data (pm_loss ?s) * pm_loss_weight cfg
        + py_data (gdm_loss ?s) * gdm_loss_weight cfg
        + py_data (ldm_loss ?s) * ldm_loss_weight cfg"
      unfolding l by (rule data_total_loss)
    from split t show ?thesis unfolding lv d by blast
  qed
  have filt: "filter is_opt_step (fst (train_step cfg env ims labels))
      = map OptStep [0..<num_models cfg]"
    unfolding tr using pre post by (simp add: filter_none)
  from tr pre post each filt show ?thesis by blast
qed

theorem optimizer_steps_after_all_backward_witness:
  "num_models cfg_all \<le> num_devices env2
   \<and> snd (train_step cfg_all env2 ims2 labels2) = Inr ()
   \<and> fst (train_step cfg_all env2 ims2 labels2) =
       [Forward 0, GlobalLoss 0, LocalLoss 0 True, IdCriterion 0, Softmax 0, LogSoftmax 0,
        Forward 1, GlobalLoss 1, LocalLoss 1 True, IdCriterion 1, Softmax 1, LogSoftmax 1,
        KlDiv 0 1, GdmSum 0 1, LdmSum 0 1, ZeroGrad 0, Backward 0 (21 / 2) {0},
        KlDiv 1 0, GdmSum 1 0, LdmSum 1 0, ZeroGrad 1, Backward 1 12 {1},
        OptStep 0, OptStep 1,
        MeterUpdate g_prec_meter 1, MeterUpdate g_m_meter (1 / 2),
        MeterUpdate g_dist_ap_meter 1, MeterUpdate g_dist_an_meter (5 / 2),
        MeterUpdate g_loss_meter 2, MeterUpdate l_prec_meter 1, MeterUpdate l_m_meter 1,
        MeterUpdate l_dist_ap_meter 1, MeterUpdate l_dist_an_meter (7 / 2),
        MeterUpdate l_loss_meter 3, MeterUpdate id_loss_meter 5,
        MeterUpdate pm_loss_meter 1, MeterUpdate gdm_loss_meter (1 / 2),
        MeterUpdate ldm_loss_meter (1 / 2), MeterUpdate loss_meter 12]
   \<and> (21 / 2 :: real) =
        data (g_loss (fwd_of cfg_all env2 ims2 labels2 0)) * g_loss_weight cfg_all
        + py_data (l_loss (fwd_of cfg_all env2 ims2 labels2 0)) * l_loss_weight cfg_all
        + py_data (id_loss (fwd_of cfg_all env2 ims2 labels2 0)) * id_loss_weight cfg_all
        + 3 / 2 * pm_loss_weight cfg_all + 1 / 2 * gdm_loss_weight cfg_all
        + 1 / 2 * ldm_loss_weight cfg_all
   \<and> (\<exists>pre post.
         fst (train_step cfg_all env2 ims2 labels2)
           = pre @ map OptStep [0..<num_models cfg_all] @ post
       \<and> (\<forall>e \<in> set pre \<union> set post. \<not> is_opt_step e)
       \<and> (\<forall>i < num_models cfg_all. \<exists>a c pm gdm ldm.
             snd (pm_block cfg_all env2 (length ims2) (fwds cfg_all env2 ims2 labels2) i) = Inr pm
           \<and> snd (gdm_block cfg_all (length ims2) (fwds cfg_all env2 ims2 labels2) i) = Inr gdm
           \<and> snd (ldm_block cfg_all (length ims2) (fwds cfg_all env2 ims2 labels2) i) = Inr ldm
           \<and> pre = a @ [ZeroGrad i, Backward i
                 (data (g_loss (fwd_of cfg_all env2 ims2 labels2 i)) * g_loss_weight cfg_all
                  + py_data (l_loss (fwd_of cfg_all env2 ims2 labels2 i)) * l_loss_weight cfg_all
                  + py_data (id_loss (fwd_of cfg_all env2 ims2 labels2 i)) * id_loss_weight cfg_all
                  + py_data pm * pm_loss_weight cfg_all
                  + py_data gdm * gdm_loss_weight cfg_all
                  + py_data ldm * ldm_loss_weight cfg_all) {i}] @ c)
       \<and> filter is_opt_step (fst (train_step cfg_all env2 ims2 labels2))
           = map OptStep [0..<num_models cfg_all])"
proof -
  have h1: "num_models cfg_all \<le> num_devices env2" by code_simp
  have h2: "snd (train_step cfg_all env2 ims2 labels2) = Inr ()" by code_simp
  have h3: "fst (train_step cfg_all env2 ims2 labels2) =
       [Forward 0, GlobalLoss 0, LocalLoss 0 True, IdCriterion 0, Softmax 0, LogSoftmax 0,
        Forward 1, GlobalLoss 1, LocalLoss 1 True, IdCriterion 1, Softmax 1, LogSoftmax 1,
        KlDiv 0 1, GdmSum 0 1, LdmSum 0 1, ZeroGrad 0, Backward 0 (21 / 2) {0},
        KlDiv 1 0, GdmSum 1 0, LdmSum 1 0, ZeroGrad 1, Backward 1 12 {1},
        OptStep 0, OptStep 1,
        MeterUpdate g_prec_meter 1, MeterUpdate g_m_meter (1 / 2),
        MeterUpdate g_dist_ap_meter 1, MeterUpdate g_dist_an_meter (5 / 2),
        MeterUpdate g_loss_meter 2, MeterUpdate l_prec_meter 1, MeterUpdate l_m_meter 1,
        MeterUpdate l_dist_ap_meter 1, MeterUpdate l_dist_an_meter (7 / 2),
        MeterUpdate l_loss_meter 3, MeterUpdate id_loss_meter 5,
        MeterUpdate pm_loss_meter 1, MeterUpdate gdm_loss_meter (1 / 2),
        MeterUpdate ldm_loss_meter (1 / 2), MeterUpdate loss_meter 12]" by code_simp
  have h4: "(21 / 2 :: real) =
        data (g_loss (fwd_of cfg_all env2 ims2 labels2 0)) * g_loss_weight cfg_all
        + py_data (l_loss (fwd_of cfg_all env2 ims2 labels2 0)) * l_loss_weight cfg_all
        + py_data (id_loss (fwd_of cfg_all env2 ims2 labels2 0)) * id_loss_weight cfg_all
        + 3 / 2 * pm_loss_weight cfg_all + 1 / 2 * gdm_loss_weight cfg_all
        + 1 / 2 * ldm_loss_weight cfg_all" by code_simp
  from optimizer_steps_after_all_backward [OF h1 disjI1 [OF h2]] h1 h2 h3 h4
  show ?thesis by blast
qed

subsection \<open>C3: which terms are skipped\<close>

text \<open>
  C3, as stated, fails for the global triplet term: \<^verbatim>\<open>global_loss\<close> is called for every
  model whatever \<^verbatim>\<open>cfg.g_loss_weight\<close> is (line 255 has no guard; its results feed the
  shared-hard-sample local loss, the global-distance mutual loss and the step log). With
  weight 0 the call is still in the log.
\<close>

theorem global_loss_computed_with_weight_zero:
  "g_loss_weight cfg_pm = 0
   \<and> GlobalLoss 0 \<in> set (fst (train_step cfg_pm env2 [0, 1] [7, 7]))"
proof -
  have "g_loss_weight cfg_pm = 0" by code_simp
  moreover have "GlobalLoss 0 \<in> set (fst (train_step cfg_pm env2 [0, 1] [7, 7]))"
    by code_simp
  ultimately show ?thesis by simp
qed

text \<open>
  C3, amended. In every training step: with local-loss weight 0 no \<^verbatim>\<open>local_loss\<close> call is
  made and the local loss and local distance matrix of every model are the number 0; with
  classification weight 0 the classification criterion is not called and the term is the
  number 0; with the probability-mutual (global-distance-mutual) weight 0 or at most one
  model, no summand of that mutual loss is computed: its block returns the number 0 at
  once, with no peer loop and no division, and that is the value the iteration records;
  likewise for the local-distance-mutual loss with weight 0, at most one model or without
  the independent-hard-sample policy. A step of a single model therefore returns
  normally. The global triplet term is computed for every model of the step, whatever its
  weight.
\<close>

theorem disabled_terms_not_computed:
  "(l_loss_weight cfg = 0 \<longrightarrow>
      (\<forall>k b. LocalLoss k b \<notin> set (fst (train_step cfg env ims labels)))
      \<and> l_loss (fwd_of cfg env ims labels i) = PyNum 0
      \<and> l_dist_mat (fwd_of cfg env ims labels i) = PyNum 0)
   \<and> (id_loss_weight cfg = 0 \<longrightarrow>
      (\<forall>k. IdCriterion k \<notin> set (fst (train_step cfg env ims labels)))
      \<and> id_loss (fwd_of cfg env ims labels i) = PyNum 0)
   \<and> (pm_loss_weight cfg = 0 \<or> num_models cfg \<le> 1 \<longrightarrow>
      (\<forall>k j. KlDiv k j \<notin> set (fst (train_step cfg env ims labels)))
      \<and> pm_block cfg env n fs i = ([], Inr (PyNum 0))
      \<and> (\<forall>s. snd (second_loop_body cfg env n fs i) = Inr s \<longrightarrow> pm_loss s = PyNum 0))
   \<and> (gdm_loss_weight cfg = 0 \<or> num_models cfg \<le> 1 \<longrightarrow>
      (\<forall>k j. GdmSum k j \<notin> set (fst (train_step cfg env ims labels)))
      \<and> gdm_block cfg n fs i = ([], Inr (PyNum 0))
      \<and> (\<forall>s. snd (second_loop_body cfg env n fs i) = Inr s \<longrightarrow> gdm_loss s = PyNum 0))
   \<and> (ldm_loss_weight cfg = 0 \<or> num_models cfg \<le> 1 \<or> \<not> local_dist_own_hard_sample cfg \<longrightarrow>
      (\<forall>k j. LdmSum k j \<notin> set (fst (train_step cfg env ims labels)))
      \<and> ldm_block cfg n fs i = ([], Inr (PyNum 0))
      \<and> (\<forall>s. snd (second_loop_body cfg env n fs i) = Inr s \<longrightarrow> ldm_loss s = PyNum 0))
   \<and> (num_models cfg = 1 \<and> 1 \<le> num_devices env \<longrightarrow>
        snd (train_step cfg env ims labels) = Inr ())
   \<and> (\<forall>k < min (num_models cfg) (num_devices env).
        GlobalLoss k \<in> set (fst (train_step cfg env ims labels)))"
proof -
  have l: "l_loss_weight cfg = 0 \<longrightarrow>
      (\<forall>k b. LocalLoss k b \<notin> set (fst (train_step cfg env ims labels)))
      \<and> l_loss (fwd_of cfg env ims labels i) = PyNum 0
      \<and> l_dist_mat (fwd_of cfg env ims labels i) = PyNum 0"
    by (simp add: local_loss_not_in_trace fwd_of_fields)
  have d: "id_loss_weight cfg = 0 \<longrightarrow>
      (\<forall>k. IdCriterion k \<notin> set (fst (train_step cfg env ims labels)))
      \<and> id_loss (fwd_of cfg env ims labels i) = PyNum 0"
    by (simp add: no_id_call fwd_of_no_id)
  have pm: "pm_loss_weight cfg = 0 \<or> num_models cfg \<le> 1 \<longrightarrow>
      (\<forall>k j. KlDiv k j \<notin> set (fst (train_step cfg env ims labels)))
      \<and> pm_block cfg env n fs i = ([], Inr (PyNum 0))
      \<and> (\<forall>s. snd (second_loop_body cfg env n fs i) = Inr s \<longrightarrow> pm_loss s = PyNum 0)"
  proof
    assume "pm_loss_weight cfg = 0 \<or> num_models cfg \<le> 1"
    then have off: "\<not> (1 < num_models cfg \<and> 0 < pm_loss_weight cfg)" by auto
    have "pm_loss s = PyNum 0" if "snd (second_loop_body cfg env n fs i) = Inr s" for s
      using second_loop_body_Inr_terms [OF that] pm_block_disabled [OF off, of env n fs i]
      by simp
    with off show "(\<forall>k j. KlDiv k j \<notin> set (fst (train_step cfg env ims labels)))
      \<and> pm_block cfg env n fs i = ([], Inr (PyNum 0))
      \<and> (\<forall>s. snd (second_loop_body cfg env n fs i) = Inr s \<longrightarrow> pm_loss s = PyNum 0)"
      by (simp add: no_kl_call pm_block_disabled)
  qed
  have gdm: "gdm_loss_weight cfg = 0 \<or> num_models cfg \<le> 1 \<longrightarrow>
      (\<forall>k j. GdmSum k j \<notin> set (fst (train_step cfg env ims labels)))
      \<and> gdm_block cfg n fs i = ([], Inr (PyNum 0))
      \<and> (\<forall>s. snd (second_loop_body cfg env n fs i) = Inr s \<longrightarrow> gdm_loss s = PyNum 0)"
  proof
    assume "gdm_loss_weight cfg = 0 \<or> num_models cfg \<le> 1"
    then have off: "\<not> (1 < num_models cfg \<and> 0 < gdm_loss_weight cfg)" by auto
    have "gdm_loss s = PyNum 0" if "snd (second_loop_body cfg env n fs i) = Inr s" for s
      using second_loop_body_Inr_terms [OF that] gdm_block_disabled [OF off, of n fs i]
      by simp
    with off show "(\<forall>k j. GdmSum k j \<notin> set (fst (train_step cfg env ims labels)))
      \<and> gdm_block cfg n fs i = ([], Inr (PyNum 0))
      \<and> (\<forall>s. snd (second_loop_body cfg env n fs i) = Inr s \<longrightarrow> gdm_loss s = PyNum 0)"
      by (simp add: no_gdm_call gdm_block_disabled)
  qed
  have ldm: "ldm_loss_weight cfg = 0 \<or> num_models cfg \<le> 1 \<or> \<not> local_dist_own_hard_sample cfg \<longrightarrow>
      (\<forall>k j. LdmSum k j \<notin> set (fst (train_step cfg env ims labels)))
      \<and> ldm_block cfg n fs i = ([], Inr (PyNum 0))
      \<and> (\<forall>s. snd (second_loop_body cfg env n fs i) = Inr s \<longrightarrow> ldm_loss s = PyNum 0)"
  proof
    assume "ldm_loss_weight cfg = 0 \<or> num_models cfg \<le> 1 \<or> \<not> local_dist_own_hard_sample cfg"
    then have off: "\<not> (1 < num_models cfg \<and> local_dist_own_hard_sample cfg
        \<and> 0 < ldm_loss_weight cfg)" by auto
    have "ldm_loss s = PyNum 0" if "snd (second_loop_body cfg env n fs i) = Inr s" for s
      using second_loop_body_Inr_terms [OF that] ldm_block_disabled [OF off, of n fs i]
      by simp
    with off show "(\<forall>k j. LdmSum k j \<notin> set (fst (train_step cfg env ims labels)))
      \<and> ldm_block cfg n fs i = ([], Inr (PyNum 0))
      \<and> (\<forall>s. snd (second_loop_body cfg env n fs i) = Inr s \<longrightarrow> ldm_loss s = PyNum 0)"
      by (simp add: no_ldm_call ldm_block_disabled)
  qed
  have one: "num_models cfg = 1 \<and> 1 \<le> num_devices env \<longrightarrow>
        snd (train_step cfg env ims labels) = Inr ()"
    by (simp add: one_model_step_returns)
  have g: "\<forall>k < min (num_models cfg) (num_devices env).
        GlobalLoss k \<in> set (fst (train_step cfg env ims labels))"
    by (simp add: global_loss_in_trace)
  from l d pm gdm ldm one g show ?thesis by (intro conjI)
qed

theorem disabled_terms_not_computed_witness:
  "l_loss_weight cfg_g = 0 \<and> id_loss_weight cfg_g = 0 \<and> pm_loss_weight cfg_g = 0
   \<and> gdm_loss_weight cfg_g = 0 \<and> ldm_loss_weight cfg_g = 0
   \<and> (1 :: nat) < min (num_models cfg_g) (num_devices env2)
   \<and> train_step cfg_g env2 ims2 labels2 =
       ([Forward 0, GlobalLoss 0, Softmax 0, LogSoftmax 0,
         Forward 1, GlobalLoss 1, Softmax 1, LogSoftmax 1,
         ZeroGrad 0, Backward 0 1 {0}, ZeroGrad 1, Backward 1 2 {1}, OptStep 0, OptStep 1,
         MeterUpdate g_prec_meter 1, MeterUpdate g_m_meter (1 / 2),
         MeterUpdate g_dist_ap_meter 1, MeterUpdate g_dist_an_meter (5 / 2),
         MeterUpdate g_loss_meter 2, MeterUpdate loss_meter 2], Inr ())
   \<and> (\<forall>k b. LocalLoss k b \<notin> set (fst (train_step cfg_g env2 ims2 labels2)))
   \<and> l_loss (fwd_of cfg_g env2 ims2 labels2 1) = PyNum 0
   \<and> l_dist_mat (fwd_of cfg_g env2 ims2 labels2 1) = PyNum 0
   \<and> (\<forall>k. IdCriterion k \<notin> set (fst (train_step cfg_g env2 ims2 labels2)))
   \<and> id_loss (fwd_of cfg_g env2 ims2 labels2 1) = PyNum 0
   \<and> (\<forall>k j. KlDiv k j \<notin> set (fst (train_step cfg_g env2 ims2 labels2)))
   \<and> (\<forall>k j. GdmSum k j \<notin> set (fst (train_step cfg_g env2 ims2 labels2)))
   \<and> (\<forall>k j. LdmSum k j \<notin> set (fst (train_step cfg_g env2 ims2 labels2)))
   \<and> pm_block cfg_g env2 (length ims2) (fwds cfg_g env2 ims2 labels2) 1 = ([], Inr (PyNum 0))
   \<and> gdm_block cfg_g (length ims2) (fwds cfg_g env2 ims2 labels2) 1 = ([], Inr (PyNum 0))
   \<and> ldm_block cfg_g (length ims2) (fwds cfg_g env2 ims2 labels2) 1 = ([], Inr (PyNum 0))
   \<and> GlobalLoss 1 \<in> set (fst (train_step cfg_g env2 ims2 labels2))
   \<and> num_models cfg_one = 1 \<and> 1 \<le> num_devices env2
   \<and> 0 < pm_loss_weight cfg_one \<and> 0 < gdm_loss_weight cfg_one \<and> 0 < ldm_loss_weight cfg_one
   \<and> pm_block cfg_one env2 (length ims2) (fwds cfg_one env2 ims2 labels2) 0
        = ([], Inr (PyNum 0))
   \<and> gdm_block cfg_one (length ims2) (fwds cfg_one env2 ims2 labels2) 0 = ([], Inr (PyNum 0))
   \<and> ldm_block cfg_one (length ims2) (fwds cfg_one env2 ims2 labels2) 0 = ([], Inr (PyNum 0))
   \<and> snd (train_step cfg_one env2 ims2 labels2) = Inr ()"
proof -
  have h: "l_loss_weight cfg_g = 0" "id_loss_weight cfg_g = 0" "pm_loss_weight cfg_g = 0"
    "gdm_loss_weight cfg_g = 0" "ldm_loss_weight cfg_g = 0"
    "(1 :: nat) < min (num_models cfg_g) (num_devices env2)"
    by code_simp+
  have t: "train_step cfg_g env2 ims2 labels2 =
       ([Forward 0, GlobalLoss 0, Softmax 0, LogSoftmax 0,
         Forward 1, GlobalLoss 1, Softmax 1, LogSoftmax 1,
         ZeroGrad 0, Backward 0 1 {0}, ZeroGrad 1, Backward 1 2 {1}, OptStep 0, OptStep 1,
         MeterUpdate g_prec_meter 1, MeterUpdate g_m_meter (1 / 2),
         MeterUpdate g_dist_ap_meter 1, MeterUpdate g_dist_an_meter (5 / 2),
         MeterUpdate g_loss_meter 2, MeterUpdate loss_meter 2], Inr ())"
    by code_simp
  have o: "num_models cfg_one = 1" "1 \<le> num_devices env2"
    "0 < pm_loss_weight cfg_one" "0 < gdm_loss_weight cfg_one" "0 < ldm_loss_weight cfg_one"
    by code_simp+
  from disabled_terms_not_computed
         [of cfg_g env2 ims2 labels2 1 "length ims2" "fwds cfg_g env2 ims2 labels2"] h
  have a: "(\<forall>k b. LocalLoss k b \<notin> set (fst (train_step cfg_g env2 ims2 labels2)))
   \<and> l_loss (fwd_of cfg_g env2 ims2 labels2 1) = PyNum 0
   \<and> l_dist_mat (fwd_of cfg_g env2 ims2 labels2 1) = PyNum 0
   \<and> (\<forall>k. IdCriterion k \<notin> set (fst (train_step cfg_g env2 ims2 labels2)))
   \<and> id_loss (fwd_of cfg_g env2 ims2 labels2 1) = PyNum 0
   \<and> (\<forall>k j. KlDiv k j \<notin> set (fst (train_step cfg_g env2 ims2 labels2)))
   \<and> (\<forall>k j. GdmSum k j \<notin> set (fst (train_step cfg_g env2 ims2 labels2)))
   \<and> (\<forall>k j. LdmSum k j \<notin> set (fst (train_step cfg_g env2 ims2 labels2)))
   \<and> pm_block cfg_g env2 (length ims2) (fwds cfg_g env2 ims2 labels2) 1 = ([], Inr (PyNum 0))
   \<and> gdm_block cfg_g (length ims2) (fwds cfg_g env2 ims2 labels2) 1 = ([], Inr (PyNum 0))
   \<and> ldm_block cfg_g (length ims2) (fwds cfg_g env2 ims2 labels2) 1 = ([], Inr (PyNum 0))
   \<and> GlobalLoss 1 \<in> set (fst (train_step cfg_g env2 ims2 labels2))"
    by blast
  from disabled_terms_not_computed
         [of cfg_one env2 ims2 labels2 0 "length ims2" "fwds cfg_one env2 ims2 labels2"] o
  have b: "pm_block cfg_one env2 (length ims2) (fwds cfg_one env2 ims2 labels2) 0
        = ([], Inr (PyNum 0))
   \<and> gdm_block cfg_one (length ims2) (fwds cfg_one env2 ims2 labels2) 0 = ([], Inr (PyNum 0))
   \<and> ldm_block cfg_one (length ims2) (fwds cfg_one env2 ims2 labels2) 0 = ([], Inr (PyNum 0))
   \<and> snd (train_step cfg_one env2 ims2 labels2) = Inr ()"
    by simp
  from h t o a b show ?thesis by (intro conjI) simp_all
qed

subsection \<open>C5: the probability mutual loss\<close>

text \<open>
  C5. With at least two models, a positive probability-mutual weight, one device handle per
  model and a non-empty batch, iteration \<open>i\<close> of the second loop, run on the lists \<open>fs\<close>
  the first loop built, computes one KL divergence per peer \<open>j \<noteq> i\<close> and none for
  \<open>j = i\<close>, and \<^verbatim>\<open>pm_loss\<close> is a Variable whose value is the sum over the peers of
  \<^verbatim>\<open>kl_div(log_softmax(logits i), softmax(logits j))\<close> divided by \<open>(M - 1) * N\<close>, and
  whose graph reaches model \<open>i\<close> only (the peer's probabilities are detached). The KL
  divergence is the collaborator \<^verbatim>\<open>F.kl_div\<close> with \<^verbatim>\<open>size_average = False\<close>.
\<close>

theorem pm_loss_value:
  assumes "2 \<le> num_models cfg" "0 < pm_loss_weight cfg" "num_models cfg \<le> num_devices env"
    "i < num_models cfg" "ims \<noteq> []"
  shows "\<exists>fs. snd (first_loop cfg env ims labels) = Inr fs
        \<and> pm_block cfg env (length ims) fs i =
            (map (KlDiv i) (filter (\<lambda>j. j \<noteq> i) [0..<num_models cfg]),
             Inr (PyVar (Var
               ((\<Sum>j \<in> {0..<num_models cfg} - {i}.
                    kl_div env (log_softmax env (snd (snd (model env i ims))))
                               (softmax env (snd (snd (model env j ims)))))
                  / (real (num_models cfg - 1) * real (length ims)))
               {i})))"
proof -
  let ?fs = "fwds cfg env ims labels"
  have len: "num_models cfg \<le> length ?fs" using assms(3) by simp
  have nth: "?fs ! j = fwd_of cfg env ims labels j" if "j < num_models cfg" for j
    using that assms(3) by simp
  have "(\<Sum>j \<in> {0..<num_models cfg} - {i}.
           kl_div env (data (log_probs (?fs ! i))) (data (probs (?fs ! j))))
      = (\<Sum>j \<in> {0..<num_models cfg} - {i}.
           kl_div env (log_softmax env (snd (snd (model env i ims))))
                      (softmax env (snd (snd (model env j ims)))))"
    by (rule sum.cong [OF refl]) (simp add: nth assms(4) fwd_of_fields)
  then have "pm_block cfg env (length ims) ?fs i =
            (map (KlDiv i) (filter (\<lambda>j. j \<noteq> i) [0..<num_models cfg]),
             Inr (PyVar (Var
               ((\<Sum>j \<in> {0..<num_models cfg} - {i}.
                    kl_div env (log_softmax env (snd (snd (model env i ims))))
                               (softmax env (snd (snd (model env j ims)))))
                  / (real (num_models cfg - 1) * real (length ims)))
               {i})))"
    unfolding pm_block_ok [OF assms(1,2) len] sum_list_peers
    by (simp add: nth assms(4) fwd_of_fields peers_def)
  then show ?thesis by (auto simp: first_loop_eq)
qed

theorem pm_loss_value_witness:
  "2 \<le> num_models cfg_pm \<and> 0 < pm_loss_weight cfg_pm
   \<and> num_models cfg_pm \<le> num_devices env2 \<and> 0 < num_models cfg_pm \<and> ims2 \<noteq> []
   \<and> (\<exists>fs. snd (first_loop cfg_pm env2 ims2 labels2) = Inr fs
        \<and> pm_block cfg_pm env2 (length ims2) fs 0 =
            (map (KlDiv 0) (filter (\<lambda>j. j \<noteq> 0) [0..<num_models cfg_pm]),
             Inr (PyVar (Var
               ((\<Sum>j \<in> {0..<num_models cfg_pm} - {0}.
                    kl_div env2 (log_softmax env2 (snd (snd (model env2 0 ims2))))
                               (softmax env2 (snd (snd (model env2 j ims2)))))
                  / (real (num_models cfg_pm - 1) * real (length ims2)))
               {0}))))"
proof -
  have h: "2 \<le> num_models cfg_pm" "0 < pm_loss_weight cfg_pm"
    "num_models cfg_pm \<le> num_devices env2" "0 < num_models cfg_pm" "ims2 \<noteq> []"
    by code_simp+
  from pm_loss_value [OF h, of labels2] h show ?thesis by blast
qed

subsection \<open>C6: the global-distance mutual loss\<close>

text \<open>
  C6. With at least two models, a positive global-distance-mutual weight, one device handle
  per model, a non-empty batch of \<open>N\<close> images and \<open>N\<close> by \<open>N\<close> global distance matrices,
  iteration \<open>i\<close> of the second loop computes one summand per peer \<open>j \<noteq> i\<close>, and
  \<^verbatim>\<open>gdm_loss\<close> is a Variable whose value is the sum over the peers of the sum of the
  squared element-wise differences of the two matrices, divided by \<open>(M - 1) * N * N\<close>, and
  whose graph reaches model \<open>i\<close> only.
\<close>

theorem gdm_loss_value:
  assumes "2 \<le> num_models cfg" "0 < gdm_loss_weight cfg" "num_models cfg \<le> num_devices env"
    "i < num_models cfg" "ims \<noteq> []"
    and "\<forall>k < num_models cfg.
           is_square (length ims) (data (g_dist_mat (fwd_of cfg env ims labels k)))"
  shows "\<exists>fs. snd (first_loop cfg env ims labels) = Inr fs
        \<and> (\<forall>k < num_models cfg. fs ! k = fwd_of cfg env ims labels k)
        \<and> gdm_block cfg (length ims) fs i =
            (map (GdmSum i) (filter (\<lambda>j. j \<noteq> i) [0..<num_models cfg]),
             Inr (PyVar (Var
               ((\<Sum>j \<in> {0..<num_models cfg} - {i}. \<Sum>x < length ims. \<Sum>y < length ims.
                    (data (g_dist_mat (fs ! i)) ! x ! y - data (g_dist_mat (fs ! j)) ! x ! y) ^ 2)
                  / (real (num_models cfg - 1) * real (length ims) * real (length ims)))
               {i})))"
proof -
  let ?fs = "fwds cfg env ims labels"
  have len: "num_models cfg \<le> length ?fs" using assms(3) by simp
  have nth: "?fs ! j = fwd_of cfg env ims labels j" if "j < num_models cfg" for j
    using that assms(3) by simp
  have "(\<Sum>j \<in> {0..<num_models cfg} - {i}.
           mat_sum (mat_pow (mat_sub (data (g_dist_mat (?fs ! i))) (data (g_dist_mat (?fs ! j)))) 2))
      = (\<Sum>j \<in> {0..<num_models cfg} - {i}. \<Sum>x < length ims. \<Sum>y < length ims.
           (data (g_dist_mat (?fs ! i)) ! x ! y - data (g_dist_mat (?fs ! j)) ! x ! y) ^ 2)"
    by (rule sum.cong [OF refl], rule mat_sum_pow_sub) (use assms(4,6) in \<open>simp_all add: nth\<close>)
  then have "gdm_block cfg (length ims) ?fs i =
            (map (GdmSum i) (filter (\<lambda>j. j \<noteq> i) [0..<num_models cfg]),
             Inr (PyVar (Var
               ((\<Sum>j \<in> {0..<num_models cfg} - {i}. \<Sum>x < length ims. \<Sum>y < length ims.
                    (data (g_dist_mat (?fs ! i)) ! x ! y - data (g_dist_mat (?fs ! j)) ! x ! y) ^ 2)
                  / (real (num_models cfg - 1) * real (length ims) * real (length ims)))
               {i})))"
    unfolding gdm_block_ok [OF assms(1,2) len] sum_list_peers
    by (simp add: nth assms(4) fwd_of_leaves peers_def)
  then show ?thesis using nth by (auto simp: first_loop_eq)
qed

theorem gdm_loss_value_witness:
  "2 \<le> num_models cfg_all \<and> 0 < gdm_loss_weight cfg_all
   \<and> num_models cfg_all \<le> num_devices env2 \<and> 0 < num_models cfg_all \<and> ims2 \<noteq> []
   \<and> is_square (length ims2) (data (g_dist_mat (fwd_of cfg_all env2 ims2 labels2 0)))
   \<and> is_square (length ims2) (data (g_dist_mat (fwd_of cfg_all env2 ims2 labels2 1)))
   \<and> (\<exists>fs. snd (first_loop cfg_all env2 ims2 labels2) = Inr fs
        \<and> (\<forall>k < num_models cfg_all. fs ! k = fwd_of cfg_all env2 ims2 labels2 k)
        \<and> gdm_block cfg_all (length ims2) fs 0 =
            (map (GdmSum 0) (filter (\<lambda>j. j \<noteq> 0) [0..<num_models cfg_all]),
             Inr (PyVar (Var
               ((\<Sum>j \<in> {0..<num_models cfg_all} - {0}. \<Sum>x < length ims2. \<Sum>y < length ims2.
                    (data (g_dist_mat (fs ! 0)) ! x ! y - data (g_dist_mat (fs ! j)) ! x ! y) ^ 2)
                  / (real (num_models cfg_all - 1) * real (length ims2) * real (length ims2)))
               {0}))))"
proof -
  have h: "2 \<le> num_models cfg_all" "0 < gdm_loss_weight cfg_all"
    "num_models cfg_all \<le> num_devices env2" "0 < num_models cfg_all" "ims2 \<noteq> []"
    by code_simp+
  have m: "num_models cfg_all = 2" by code_simp
  have s0: "is_square (length ims2) (data (g_dist_mat (fwd_of cfg_all env2 ims2 labels2 0)))"
    by code_simp
  have s1: "is_square (length ims2) (data (g_dist_mat (fwd_of cfg_all env2 ims2 labels2 1)))"
    by code_simp
  have sq: "\<forall>k < num_models cfg_all.
      is_square (length ims2) (data (g_dist_mat (fwd_of cfg_all env2 ims2 labels2 k)))"
    unfolding m using s0 s1 by (auto simp: less_2_cases_iff)
  from gdm_loss_value [OF h sq] h s0 s1 show ?thesis by blast
qed

subsection \<open>C7: when the local-distance mutual loss is computed\<close>

text \<open>
  C7. A summand of the local-distance mutual loss appears in the log of a training step
  only if there are at least two models, the weight is positive and the local loss uses the
  independent-hard-sample policy. Under any other configuration the block of lines 317 to
  326 computes nothing and leaves \<^verbatim>\<open>ldm_loss\<close> the number 0, and the total loss is the sum
  of the five other weighted terms.
\<close>

theorem ldm_only_when_enabled:
  "((\<exists>i j. LdmSum i j \<in> set (fst (train_step cfg env ims labels))) \<longrightarrow>
      2 \<le> num_models cfg \<and> 0 < ldm_loss_weight cfg \<and> local_dist_own_hard_sample cfg)
   \<and> (\<not> (2 \<le> num_models cfg \<and> 0 < ldm_loss_weight cfg \<and> local_dist_own_hard_sample cfg) \<longrightarrow>
        ldm_block cfg n fs i = ([], Inr (PyNum 0))
      \<and> total_loss cfg f pm gdm (PyNum 0) =
          var_add_py (var_add_py (var_add_py (var_add_py
            (var_mul (g_loss f) (g_loss_weight cfg))
            (py_mul (l_loss f) (l_loss_weight cfg)))
            (py_mul (id_loss f) (id_loss_weight cfg)))
            (py_mul pm (pm_loss_weight cfg)))
            (py_mul gdm (gdm_loss_weight cfg)))"
  by (auto simp: total_loss_without_ldm dest: ldm_in_trace intro!: ldm_block_disabled)

theorem ldm_only_when_enabled_witness:
  "LdmSum 0 1 \<in> set (fst (train_step cfg_all env2 ims2 labels2))
   \<and> 2 \<le> num_models cfg_all \<and> 0 < ldm_loss_weight cfg_all
   \<and> local_dist_own_hard_sample cfg_all
   \<and> \<not> (2 \<le> num_models cfg_one \<and> 0 < ldm_loss_weight cfg_one
          \<and> local_dist_own_hard_sample cfg_one)
   \<and> ldm_block cfg_one 2 (fwds cfg_one env2 ims2 labels2) 0 = ([], Inr (PyNum 0))"
proof -
  have h1: "LdmSum 0 1 \<in> set (fst (train_step cfg_all env2 ims2 labels2))" by code_simp
  have h2: "\<not> (2 \<le> num_models cfg_one \<and> 0 < ldm_loss_weight cfg_one
          \<and> local_dist_own_hard_sample cfg_one)" by code_simp
  from ldm_only_when_enabled [of cfg_all env2 ims2 labels2] h1
  have a: "2 \<le> num_models cfg_all \<and> 0 < ldm_loss_weight cfg_all
      \<and> local_dist_own_hard_sample cfg_all" by blast
  from ldm_only_when_enabled [of cfg_one env2 ims2 labels2 2 "fwds cfg_one env2 ims2 labels2" 0] h2
  have b: "ldm_block cfg_one 2 (fwds cfg_one env2 ims2 labels2) 0 = ([], Inr (PyNum 0))"
    by blast
  from h1 h2 a b show ?thesis by blast
qed

subsection \<open>C8: local-loss weight 0\<close>

text \<open>
  C8. With local-loss weight 0, no training step calls \<^verbatim>\<open>local_loss\<close>, and the value of
  every total loss the step back-propagates is the sum of the weighted global triplet
  term and of the weighted classification, probability-mutual and global-distance-mutual
  terms that are enabled; the local triplet and the local-distance mutual term add nothing.
\<close>

theorem no_local_loss_when_weight_zero:
  assumes "l_loss_weight cfg = 0"
  shows "(\<forall>i b. LocalLoss i b \<notin> set (fst (train_step cfg env ims labels)))
       \<and> (\<forall>i v ls. Backward i v ls \<in> set (fst (train_step cfg env ims labels)) \<longrightarrow>
            (\<exists>pm gdm.
               snd (pm_block cfg env (length ims) (fwds cfg env ims labels) i) = Inr pm
             \<and> snd (gdm_block cfg (length ims) (fwds cfg env ims labels) i) = Inr gdm
             \<and> v = data (g_loss (fwd_of cfg env ims labels i)) * g_loss_weight cfg
                 + (if 0 < id_loss_weight cfg
                    then py_data (id_loss (fwd_of cfg env ims labels i)) * id_loss_weight cfg
                    else 0)
                 + (if 1 < num_models cfg \<and> 0 < pm_loss_weight cfg
                    then py_data pm * pm_loss_weight cfg else 0)
                 + (if 1 < num_models cfg \<and> 0 < gdm_loss_weight cfg
                    then py_data gdm * gdm_loss_weight cfg else 0)))"
proof (intro conjI allI impI)
  fix i b
  show "LocalLoss i b \<notin> set (fst (train_step cfg env ims labels))"
    using assms by (rule local_loss_not_in_trace)
next
  fix i v ls
  let ?fs = "fwds cfg env ims labels"
  let ?f = "fwd_of cfg env ims labels i"
  assume "Backward i v ls \<in> set (fst (train_step cfg env ims labels))"
  from backward_value [OF this] obtain pm gdm ldm where
    pm: "snd (pm_block cfg env (length ims) ?fs i) = Inr pm"
    and gdm: "snd (gdm_block cfg (length ims) ?fs i) = Inr gdm"
    and ldm: "snd (ldm_block cfg (length ims) ?fs i) = Inr ldm"
    and v: "v = data (total_loss cfg ?f pm gdm ldm)"
    by blast
  have l0: "ldm = PyNum 0"
  proof (cases "1 < num_models cfg \<and> local_dist_own_hard_sample cfg \<and> 0 < ldm_loss_weight cfg")
    case True
    have nn: "\<forall>j < length ?fs. \<exists>a. l_dist_mat (?fs ! j) = PyNum a"
      by (rule fwds_no_local [OF assms])
    from True have "\<exists>e. snd (ldm_block cfg (length ims) ?fs i) = Inl e"
      by (intro ldm_block_nums_fail [OF _ _ _ nn]) simp_all
    with ldm show ?thesis by simp
  next
    case False
    with ldm show ?thesis by (simp add: ldm_block_disabled)
  qed
  have p0: "\<not> (1 < num_models cfg \<and> 0 < pm_loss_weight cfg) \<Longrightarrow> pm = PyNum 0"
    using pm by (simp add: pm_block_disabled)
  have g0: "\<not> (1 < num_models cfg \<and> 0 < gdm_loss_weight cfg) \<Longrightarrow> gdm = PyNum 0"
    using gdm by (simp add: gdm_block_disabled)
  have "v = data (g_loss ?f) * g_loss_weight cfg
      + (if 0 < id_loss_weight cfg then py_data (id_loss ?f) * id_loss_weight cfg else 0)
      + (if 1 < num_models cfg \<and> 0 < pm_loss_weight cfg
         then py_data pm * pm_loss_weight cfg else 0)
      + (if 1 < num_models cfg \<and> 0 < gdm_loss_weight cfg
         then py_data gdm * gdm_loss_weight cfg else 0)"
    unfolding v data_total_loss l0
    using p0 g0 fwd_of_no_id [of cfg env ims labels i] fwd_of_no_local(1) [OF assms, of env ims labels i]
    by auto
  with pm gdm
  show "\<exists>pm gdm.
          snd (pm_block cfg env (length ims) ?fs i) = Inr pm
        \<and> snd (gdm_block cfg (length ims) ?fs i) = Inr gdm
        \<and> v = data (g_loss ?f) * g_loss_weight cfg
            + (if 0 < id_loss_weight cfg then py_data (id_loss ?f) * id_loss_weight cfg else 0)
            + (if 1 < num_models cfg \<and> 0 < pm_loss_weight cfg
               then py_data pm * pm_loss_weight cfg else 0)
            + (if 1 < num_models cfg \<and> 0 < gdm_loss_weight cfg
               then py_data gdm * gdm_loss_weight cfg else 0)"
    by blast
qed

theorem no_local_loss_when_weight_zero_witness:
  "l_loss_weight cfg_no_local = 0
   \<and> Backward 0 8 {0} \<in> set (fst (train_step cfg_no_local env2 ims2 labels2))
   \<and> (\<forall>i b. LocalLoss i b \<notin> set (fst (train_step cfg_no_local env2 ims2 labels2)))
   \<and> (\<exists>pm gdm.
         snd (pm_block cfg_no_local env2 (length ims2) (fwds cfg_no_local env2 ims2 labels2) 0)
           = Inr pm
       \<and> snd (gdm_block cfg_no_local (length ims2) (fwds cfg_no_local env2 ims2 labels2) 0)
           = Inr gdm
       \<and> 8 = data (g_loss (fwd_of cfg_no_local env2 ims2 labels2 0)) * g_loss_weight cfg_no_local
           + (if 0 < id_loss_weight cfg_no_local
              then py_data (id_loss (fwd_of cfg_no_local env2 ims2 labels2 0))
                     * id_loss_weight cfg_no_local
              else 0)
           + (if 1 < num_models cfg_no_local \<and> 0 < pm_loss_weight cfg_no_local
              then py_data pm * pm_loss_weight cfg_no_local else 0)
           + (if 1 < num_models cfg_no_local \<and> 0 < gdm_loss_weight cfg_no_local
              then py_data gdm * gdm_loss_weight cfg_no_local else 0))"
proof -
  have h0: "l_loss_weight cfg_no_local = 0" by code_simp
  have h1: "Backward 0 8 {0} \<in> set (fst (train_step cfg_no_local env2 ims2 labels2))"
    by code_simp
  from no_local_loss_when_weight_zero [OF h0, of env2 ims2 labels2] h0 h1
  show ?thesis by blast
qed

subsection \<open>C10: local-distance mutual loss on the scalar 0\<close>

text \<open>
  C10. With local-loss weight 0, the independent-hard-sample policy, at least two models
  and a positive local-distance-mutual weight (and one device handle per model), line 260
  leaves every model's \<^verbatim>\<open>l_dist_mat\<close> the number 0, the guard of lines 319 to 321 still
  holds, and the first summand, \<^verbatim>\<open>TVT(l_dist_mat_list[j]).detach()\<close> on that number,
  raises: the step ends with AttributeError in the first iteration of the second loop,
  before any optimizer step. This holds for every such configuration, so for some.
\<close>

theorem ldm_on_scalar_aborts_step:
  assumes "l_loss_weight cfg = 0" "local_dist_own_hard_sample cfg" "2 \<le> num_models cfg"
    "0 < ldm_loss_weight cfg" "num_models cfg \<le> num_devices env"
  shows "(\<forall>i < num_models cfg. l_dist_mat (fwd_of cfg env ims labels i) = PyNum 0)
       \<and> ldm_block cfg (length ims) (fwds cfg env ims labels) 0 = ([], Inl AttributeError)
       \<and> snd (train_step cfg env ims labels) = Inl AttributeError
       \<and> (\<forall>k. OptStep k \<notin> set (fst (train_step cfg env ims labels)))"
proof -
  let ?fs = "fwds cfg env ims labels"
  have len: "length ?fs = num_models cfg" using assms(5) by simp
  have nums: "\<forall>j < num_models cfg. \<exists>a. l_dist_mat (?fs ! j) = PyNum a"
    using fwds_no_local [OF assms(1), of env ims labels] len by simp
  have ldm: "ldm_block cfg (length ims) ?fs 0 = ([], Inl AttributeError)"
    using assms(2-4) nums len by (intro ldm_block_nums_attr) simp_all
  obtain pm gdm where pm: "snd (pm_block cfg env (length ims) ?fs 0) = Inr pm"
    and gdm: "snd (gdm_block cfg (length ims) ?fs 0) = Inr gdm"
    using pm_block_total [of cfg ?fs env "length ims" 0]
      gdm_block_total [of cfg ?fs "length ims" 0] assms(5) by auto
  have body: "snd (second_loop_body cfg env (length ims) ?fs 0) = Inl AttributeError"
    by (simp add: second_loop_body_cases pm gdm ldm)
  have "[0..<num_models cfg] = 0 # [1..<num_models cfg]"
    using assms(3) by (simp add: upt_conv_Cons)
  then have sl: "snd (second_loop cfg env (length ims) ?fs) = Inl AttributeError"
    using assms(5) by (simp add: second_loop_fwds min_absorb1 forL_first_fails [of "second_loop_body cfg env (length ims) ?fs" 0, OF body]
        del: forL.simps)
  have "\<forall>k. OptStep k \<notin> set (fst (train_step cfg env ims labels))"
    using train_step_no_opt_on_failure [OF sl] is_opt_step.simps(1) by blast
  with ldm sl assms(1) show ?thesis
    by (simp add: train_step_fail [OF sl] fwd_of_no_local)
qed

theorem ldm_on_scalar_aborts_step_witness:
  "l_loss_weight cfg_ldm0 = 0 \<and> local_dist_own_hard_sample cfg_ldm0
   \<and> 2 \<le> num_models cfg_ldm0 \<and> 0 < ldm_loss_weight cfg_ldm0
   \<and> num_models cfg_ldm0 \<le> num_devices env2
   \<and> l_dist_mat (fwd_of cfg_ldm0 env2 ims2 labels2 0) = PyNum 0
   \<and> l_dist_mat (fwd_of cfg_ldm0 env2 ims2 labels2 1) = PyNum 0
   \<and> ldm_block cfg_ldm0 (length ims2) (fwds cfg_ldm0 env2 ims2 labels2) 0
       = ([], Inl AttributeError)
   \<and> snd (train_step cfg_ldm0 env2 ims2 labels2) = Inl AttributeError
   \<and> (\<forall>k. OptStep k \<notin> set (fst (train_step cfg_ldm0 env2 ims2 labels2)))"
proof -
  have h: "l_loss_weight cfg_ldm0 = 0" "local_dist_own_hard_sample cfg_ldm0"
    "2 \<le> num_models cfg_ldm0" "0 < ldm_loss_weight cfg_ldm0"
    "num_models cfg_ldm0 \<le> num_devices env2"
    by code_simp+
  have m: "0 < num_models cfg_ldm0" "1 < num_models cfg_ldm0" by code_simp+
  from ldm_on_scalar_aborts_step [OF h, of ims2 labels2] h m show ?thesis by blast
qed

subsection \<open>C4: configurations that enable a mutual loss that cannot run\<close>

text \<open>
  C4, as stated, fails: \<^verbatim>\<open>main\<close> has no check of the configuration. With one model, all
  three mutual weights positive and the shared-hard-sample policy, \<^verbatim>\<open>main\<close> trains (forward
  pass, backward pass, optimizer step, step log) and tests, and returns normally; no
  mutual-loss summand is in its log and no mutual-loss meter is updated.
\<close>

theorem one_model_mutual_config_not_rejected:
  "num_models cfg_one = 1 \<and> 0 < pm_loss_weight cfg_one \<and> 0 < gdm_loss_weight cfg_one
   \<and> 0 < ldm_loss_weight cfg_one \<and> \<not> local_dist_own_hard_sample cfg_one
   \<and> main cfg_one env2 [(ims2, labels2, True)] =
       ([Forward 0, GlobalLoss 0, LocalLoss 0 False, IdCriterion 0, Softmax 0, LogSoftmax 0,
         ZeroGrad 0, Backward 0 8 {0}, OptStep 0,
         MeterUpdate g_prec_meter 1, MeterUpdate g_m_meter 0, MeterUpdate g_dist_ap_meter 1,
         MeterUpdate g_dist_an_meter 2, MeterUpdate g_loss_meter 1, MeterUpdate l_prec_meter 1,
         MeterUpdate l_m_meter 1, MeterUpdate l_dist_ap_meter 1, MeterUpdate l_dist_an_meter 3,
         MeterUpdate l_loss_meter 2, MeterUpdate id_loss_meter 5, MeterUpdate loss_meter 8,
         Eval 0 1 0, Eval 0 0 1, Eval 0 1 1], Inr ())"
  by code_simp

text \<open>
  C4, amended. A configuration in which a mutual-loss weight is enabled with only one
  model, or the local-distance mutual loss is enabled without the independent-hard-sample
  policy, is not rejected: when training is requested and an epoch is left, \<^verbatim>\<open>main\<close> goes
  straight into the first training step of the first batch; in every step the guards of
  lines 302, 310 and 319-321 skip the term, which is the number 0 with nothing computed;
  and a step of a single model returns normally. The instances are one model with every
  weight 1, and two models with every weight 1 under the shared-hard-sample policy.
\<close>

theorem misconfiguration_is_skipped_not_rejected:
  "(\<not> only_test cfg \<and> start_ep env < total_epochs cfg \<longrightarrow>
      (\<exists>es. fst (main cfg env ((ims, labels, d) # ds))
               = fst (train_step cfg env ims labels) @ es))
   \<and> (num_models cfg = 1 \<longrightarrow>
        pm_block cfg env n fs i = ([], Inr (PyNum 0))
      \<and> gdm_block cfg n fs i = ([], Inr (PyNum 0))
      \<and> ldm_block cfg n fs i = ([], Inr (PyNum 0)))
   \<and> (\<not> local_dist_own_hard_sample cfg \<longrightarrow> ldm_block cfg n fs i = ([], Inr (PyNum 0)))
   \<and> (num_models cfg = 1 \<and> 1 \<le> num_devices env \<longrightarrow>
        snd (train_step cfg env ims labels) = Inr ())"
  by (auto simp: main_starts_training pm_block_disabled gdm_block_disabled ldm_block_disabled
      one_model_step_returns)

theorem misconfiguration_is_skipped_not_rejected_witness:
  "\<not> only_test cfg_one \<and> start_ep env2 < total_epochs cfg_one \<and> num_models cfg_one = 1
   \<and> \<not> local_dist_own_hard_sample cfg_one \<and> 1 \<le> num_devices env2
   \<and> (\<exists>es. fst (main cfg_one env2 [(ims2, labels2, True)])
              = fst (train_step cfg_one env2 ims2 labels2) @ es)
   \<and> pm_block cfg_one env2 (length ims2) (fwds cfg_one env2 ims2 labels2) 0
        = ([], Inr (PyNum 0))
   \<and> gdm_block cfg_one (length ims2) (fwds cfg_one env2 ims2 labels2) 0 = ([], Inr (PyNum 0))
   \<and> ldm_block cfg_one (length ims2) (fwds cfg_one env2 ims2 labels2) 0 = ([], Inr (PyNum 0))
   \<and> snd (train_step cfg_one env2 ims2 labels2) = Inr ()
   \<and> num_models cfg_shared = 2 \<and> 0 < ldm_loss_weight cfg_shared
   \<and> \<not> local_dist_own_hard_sample cfg_shared
   \<and> ldm_block cfg_shared (length ims2) (fwds cfg_shared env2 ims2 labels2) 1
        = ([], Inr (PyNum 0))
   \<and> main cfg_shared env2 [(ims2, labels2, True)] =
       ([Forward 0, GlobalLoss 0, LocalLoss 0 False, IdCriterion 0, Softmax 0, LogSoftmax 0,
         Forward 1, GlobalLoss 1, LocalLoss 1 False, IdCriterion 1, Softmax 1, LogSoftmax 1,
         KlDiv 0 1, GdmSum 0 1, ZeroGrad 0, Backward 0 10 {0},
         KlDiv 1 0, GdmSum 1 0, ZeroGrad 1, Backward 1 (23 / 2) {1}, OptStep 0, OptStep 1,
         MeterUpdate g_prec_meter 1, MeterUpdate g_m_meter (1 / 2),
         MeterUpdate g_dist_ap_meter 1, MeterUpdate g_dist_an_meter (5 / 2),
         MeterUpdate g_loss_meter 2, MeterUpdate l_prec_meter 1, MeterUpdate l_m_meter 1,
         MeterUpdate l_dist_ap_meter 1, MeterUpdate l_dist_an_meter (7 / 2),
         MeterUpdate l_loss_meter 3, MeterUpdate id_loss_meter 5,
         MeterUpdate pm_loss_meter 1, MeterUpdate gdm_loss_meter (1 / 2),
         MeterUpdate loss_meter (23 / 2),
         Eval 0 1 0, Eval 0 0 1, Eval 0 1 1, Eval 1 1 0, Eval 1 0 1, Eval 1 1 1], Inr ())"
proof -
  have h: "\<not> only_test cfg_one" "start_ep env2 < total_epochs cfg_one"
    "num_models cfg_one = 1" "\<not> local_dist_own_hard_sample cfg_one" "1 \<le> num_devices env2"
    by code_simp+
  have k: "num_models cfg_shared = 2" "0 < ldm_loss_weight cfg_shared"
    "\<not> local_dist_own_hard_sample cfg_shared"
    by code_simp+
  have m: "main cfg_shared env2 [(ims2, labels2, True)] =
       ([Forward 0, GlobalLoss 0, LocalLoss 0 False, IdCriterion 0, Softmax 0, LogSoftmax 0,
         Forward 1, GlobalLoss 1, LocalLoss 1 False, IdCriterion 1, Softmax 1, LogSoftmax 1,
         KlDiv 0 1, GdmSum 0 1, ZeroGrad 0, Backward 0 10 {0},
         KlDiv 1 0, GdmSum 1 0, ZeroGrad 1, Backward 1 (23 / 2) {1}, OptStep 0, OptStep 1,
         MeterUpdate g_prec_meter 1, MeterUpdate g_m_meter (1 / 2),
         MeterUpdate g_dist_ap_meter 1, MeterUpdate g_dist_an_meter (5 / 2),
         MeterUpdate g_loss_meter 2, MeterUpdate l_prec_meter 1, MeterUpdate l_m_meter 1,
         MeterUpdate l_dist_ap_meter 1, MeterUpdate l_dist_an_meter (7 / 2),
         MeterUpdate l_loss_meter 3, MeterUpdate id_loss_meter 5,
         MeterUpdate pm_loss_meter 1, MeterUpdate gdm_loss_meter (1 / 2),
         MeterUpdate loss_meter (23 / 2),
         Eval 0 1 0, Eval 0 0 1, Eval 0 1 1, Eval 1 1 0, Eval 1 0 1, Eval 1 1 1], Inr ())"
    by code_simp
  from misconfiguration_is_skipped_not_rejected
    [of cfg_one env2 ims2 labels2 True "[]" "length ims2" "fwds cfg_one env2 ims2 labels2" 0] h
  have a: "(\<exists>es. fst (main cfg_one env2 [(ims2, labels2, True)])
              = fst (train_step cfg_one env2 ims2 labels2) @ es)
   \<and> pm_block cfg_one env2 (length ims2) (fwds cfg_one env2 ims2 labels2) 0
        = ([], Inr (PyNum 0))
   \<and> gdm_block cfg_one (length ims2) (fwds cfg_one env2 ims2 labels2) 0 = ([], Inr (PyNum 0))
   \<and> ldm_block cfg_one (length ims2) (fwds cfg_one env2 ims2 labels2) 0 = ([], Inr (PyNum 0))
   \<and> snd (train_step cfg_one env2 ims2 labels2) = Inr ()"
    by blast
  from misconfiguration_is_skipped_not_rejected
    [of cfg_shared env2 ims2 labels2 True "[]" "length ims2"
        "fwds cfg_shared env2 ims2 labels2" 1] k
  have b: "ldm_block cfg_shared (length ims2) (fwds cfg_shared env2 ims2 labels2) 1
        = ([], Inr (PyNum 0))"
    by blast
  from h k m a b show ?thesis by blast
qed

subsection \<open>C9: the step log reads the last model\<close>

text \<open>
  C9. In a training step of an ensemble of at least two models (one device handle per
  model) that returns, the meter updates in the step's log are exactly those computed
  from the values of the last model, \<open>M - 1\<close>: triplet precision, satisfied-margin fraction,
  mean anchor-positive and anchor-negative distances of its global (and, when enabled,
  local) loss, and its global, local, classification, mutual and total loss values. No
  value of another model enters: \<open>step_log_events\<close> reads only the first-loop record of
  model \<open>M - 1\<close> and the record of its second-loop iteration. In the witness the two models
  back-propagate the losses 21/2 and 12, and the logged loss is 12.
\<close>

theorem step_log_from_last_model:
  assumes "2 \<le> num_models cfg" "num_models cfg \<le> num_devices env"
    and "snd (train_step cfg env ims labels) = Inr ()"
  shows "\<exists>s. snd (second_loop_body cfg env (length ims) (fwds cfg env ims labels)
                   (num_models cfg - 1)) = Inr s
           \<and> filter is_meter_update (fst (train_step cfg env ims labels))
               = step_log_events cfg (fwd_of cfg env ims labels (num_models cfg - 1)) s"
proof -
  let ?fs = "fwds cfg env ims labels"
  let ?sl = "second_loop cfg env (length ims) ?fs"
  let ?m = "num_models cfg"
  have m: "min ?m (num_devices env) = ?m" using assms(2) by simp
  obtain ss where ss: "snd ?sl = Inr ss"
  proof (cases "snd ?sl")
    case (Inl err)
    with assms(3) show ?thesis by (simp add: train_step_fail [OF Inl])
  next
    case (Inr ss)
    with that show ?thesis by blast
  qed
  from forL_Inr [OF ss [unfolded second_loop_fwds]]
  have len: "length ss = ?m"
    and ok: "\<And>k. k < ?m \<Longrightarrow> snd (second_loop_body cfg env (length ims) ?fs k) = Inr (ss ! k)"
    by (simp_all add: m)
  have ne: "ss \<noteq> []" using len assms(1) by auto
  have lst: "last ss = ss ! (?m - 1)" using ne len by (simp add: last_conv_nth)
  have lf: "?fs \<noteq> []" "last ?fs = fwd_of cfg env ims labels (?m - 1)"
    using last_fwds [of cfg env ims labels] assms(1,2) by simp_all
  have tail: "step_tail cfg ?fs ss = step_log cfg (fwd_of cfg env ims labels (?m - 1)) (ss ! (?m - 1))"
    using ne lf lst by (simp add: step_tail_def)
  from assms(3) have st: "snd (step_log cfg (fwd_of cfg env ims labels (?m - 1)) (ss ! (?m - 1))) = Inr ()"
    by (simp add: train_step_ok [OF ss] tail)
  have pre: "filter is_meter_update
      (concat (map (first_events cfg) [0..<min ?m (num_devices env)]) @ fst ?sl) = []"
    by (rule filter_none)
       (auto simp: second_loop_fwds dest!: set_fst_forL not_meter_first_events
          not_meter_second_loop_body)
  have post: "filter is_meter_update (fst (step_tail cfg ?fs ss)) = fst (step_tail cfg ?fs ss)"
    by (rule filter_True) (auto dest: set_fst_step_tail)
  have "filter is_meter_update (fst (train_step cfg env ims labels))
      = step_log_events cfg (fwd_of cfg env ims labels (?m - 1)) (ss ! (?m - 1))"
    using pre post step_log_Inr [OF st] by (simp add: train_step_ok [OF ss] tail)
  moreover have "snd (second_loop_body cfg env (length ims) ?fs (?m - 1)) = Inr (ss ! (?m - 1))"
    using assms(1) by (intro ok) simp
  ultimately show ?thesis by blast
qed

theorem step_log_from_last_model_witness:
  "2 \<le> num_models cfg_all \<and> num_models cfg_all \<le> num_devices env2
   \<and> snd (train_step cfg_all env2 ims2 labels2) = Inr ()
   \<and> Backward 0 (21 / 2) {0} \<in> set (fst (train_step cfg_all env2 ims2 labels2))
   \<and> Backward 1 12 {1} \<in> set (fst (train_step cfg_all env2 ims2 labels2))
   \<and> filter is_meter_update (fst (train_step cfg_all env2 ims2 labels2))
       = [MeterUpdate g_prec_meter 1, MeterUpdate g_m_meter (1 / 2),
          MeterUpdate g_dist_ap_meter 1, MeterUpdate g_dist_an_meter (5 / 2),
          MeterUpdate g_loss_meter 2, MeterUpdate l_prec_meter 1, MeterUpdate l_m_meter 1,
          MeterUpdate l_dist_ap_meter 1, MeterUpdate l_dist_an_meter (7 / 2),
          MeterUpdate l_loss_meter 3, MeterUpdate id_loss_meter 5,
          MeterUpdate pm_loss_meter 1, MeterUpdate gdm_loss_meter (1 / 2),
          MeterUpdate ldm_loss_meter (1 / 2), MeterUpdate loss_meter 12]
   \<and> (\<exists>s. snd (second_loop_body cfg_all env2 (length ims2) (fwds cfg_all env2 ims2 labels2)
                  (num_models cfg_all - 1)) = Inr s
          \<and> filter is_meter_update (fst (train_step cfg_all env2 ims2 labels2))
              = step_log_events cfg_all
                  (fwd_of cfg_all env2 ims2 labels2 (num_models cfg_all - 1)) s)"
proof -
  have h: "2 \<le> num_models cfg_all" "num_models cfg_all \<le> num_devices env2"
    "snd (train_step cfg_all env2 ims2 labels2) = Inr ()"
    by code_simp+
  have b: "Backward 0 (21 / 2) {0} \<in> set (fst (train_step cfg_all env2 ims2 labels2))"
    "Backward 1 12 {1} \<in> set (fst (train_step cfg_all env2 ims2 labels2))"
    by code_simp+
  have m: "filter is_meter_update (fst (train_step cfg_all env2 ims2 labels2))
       = [MeterUpdate g_prec_meter 1, MeterUpdate g_m_meter (1 / 2),
          MeterUpdate g_dist_ap_meter 1, MeterUpdate g_dist_an_meter (5 / 2),
          MeterUpdate g_loss_meter 2, MeterUpdate l_prec_meter 1, MeterUpdate l_m_meter 1,
          MeterUpdate l_dist_ap_meter 1, MeterUpdate l_dist_an_meter (7 / 2),
          MeterUpdate l_loss_meter 3, MeterUpdate id_loss_meter 5,
          MeterUpdate pm_loss_meter 1, MeterUpdate gdm_loss_meter (1 / 2),
          MeterUpdate ldm_loss_meter (1 / 2), MeterUpdate loss_meter 12]"
    by code_simp
  from step_log_from_last_model [OF h] h b m show ?thesis by blast
qed

end
